theory Spec2Isabelle
  imports Main "HOL-Library.Word" "HOL-Library.Monad_Syntax"
begin

unbundle bit_operations_syntax

section \<open>STM32 GPIO port: data model\<close>

text \<open>
  The device state of \<^verbatim>\<open>struct STM32GPIOState\<close> (include/hw/gpio/stm32_gpio.h).
  Every \<^verbatim>\<open>uint32_t\<close> field is a 32-bit word. The field \<^verbatim>\<open>in\<close> is named
  \<open>in_val\<close> here, since \<open>in\<close> is a keyword of the logic. The framework members
  (\<^verbatim>\<open>parent_obj\<close>, \<^verbatim>\<open>mmio\<close>) carry no data of the port; the outgoing lines
  \<^verbatim>\<open>state_irq\<close> and \<^verbatim>\<open>input_irq\<close> are modelled by the events raised on them.
\<close>

type_synonym u8 = "8 word"
type_synonym u32 = "32 word"
type_synonym u64 = "64 word"

record STM32GPIOState =
  moder :: u32
  otyper :: u32
  ospeedr :: u32
  pupdr :: u32
  idr :: u32
  odr :: u32
  lckr :: u32
  aflr :: u32
  afhr :: u32
  reset :: bool
  enable :: bool
  in_val :: u32
  in_mask :: u32
  family :: u32
  port :: u32
  ngpio :: u32

text \<open>Register offsets (\<^verbatim>\<open>hwaddr\<close> is a 64-bit unsigned integer).\<close>

definition STM32_GPIO_REG_MODER :: u64 where "STM32_GPIO_REG_MODER = 0x000"
definition STM32_GPIO_REG_OTYPER :: u64 where "STM32_GPIO_REG_OTYPER = 0x004"
definition STM32_GPIO_REG_OSPEEDR :: u64 where "STM32_GPIO_REG_OSPEEDR = 0x008"
definition STM32_GPIO_REG_PUPDR :: u64 where "STM32_GPIO_REG_PUPDR = 0x00C"
definition STM32_GPIO_REG_IDR :: u64 where "STM32_GPIO_REG_IDR = 0x010"
definition STM32_GPIO_REG_ODR :: u64 where "STM32_GPIO_REG_ODR = 0x014"
definition STM32_GPIO_REG_BSRR :: u64 where "STM32_GPIO_REG_BSRR = 0x018"
definition STM32_GPIO_REG_LCKR :: u64 where "STM32_GPIO_REG_LCKR = 0x01C"
definition STM32_GPIO_REG_AFRL :: u64 where "STM32_GPIO_REG_AFRL = 0x020"
definition STM32_GPIO_REG_AFRH :: u64 where "STM32_GPIO_REG_AFRH = 0x024"
definition STM32_GPIO_REG_BRR :: u64 where "STM32_GPIO_REG_BRR = 0x028"

text \<open>
  The enumerations of include/hw/arm/stm32.h and include/hw/gpio/stm32_gpio.h, as the
  integers the code compares the fields with. Of the family enumeration (which starts
  \<^verbatim>\<open>STM32_F2, STM32_F4, ...\<close> at 0) the code only names \<^verbatim>\<open>STM32_F4\<close>.
\<close>

definition STM32_F2 :: u32 where "STM32_F2 = 0"
definition STM32_F4 :: u32 where "STM32_F4 = 1"

definition STM32_GPIO_PORT_A :: u32 where "STM32_GPIO_PORT_A = 0"
definition STM32_GPIO_PORT_B :: u32 where "STM32_GPIO_PORT_B = 1"

definition STM32_GPIO_MODE_INPUT :: u8 where "STM32_GPIO_MODE_INPUT = 0"
definition STM32_GPIO_MODE_OUTPUT :: u8 where "STM32_GPIO_MODE_OUTPUT = 1"
definition STM32_GPIO_MODE_AF :: u8 where "STM32_GPIO_MODE_AF = 2"
definition STM32_GPIO_MODE_ANALOG :: u8 where "STM32_GPIO_MODE_ANALOG = 3"

definition STM32_GPIO_PULL_NONE :: u8 where "STM32_GPIO_PULL_NONE = 0"
definition STM32_GPIO_PULL_UP :: u8 where "STM32_GPIO_PULL_UP = 1"
definition STM32_GPIO_PULL_DOWN :: u8 where "STM32_GPIO_PULL_DOWN = 2"

text \<open>
  What the device sends out, in the order it is sent: guest-error diagnostics
  (\<^verbatim>\<open>qemu_log_mask(LOG_GUEST_ERROR, ...)\<close>), a level set on one of the per-pin lines
  (\<^verbatim>\<open>qemu_set_irq(s->input_irq[i], new_id)\<close>) and the pulse on the port-level line
  (\<^verbatim>\<open>qemu_irq_pulse(s->state_irq)\<close>). The \<^verbatim>\<open>trace_stm32_gpio_*\<close> trace points are
  left out: they neither change the state nor signal anything to the machine.
\<close>

datatype event =
    Short_circuit nat
  | Set_input_irq nat bool
  | Pulse_state_irq
  | Disabled_access
  | Bad_read_offset u64
  | Bad_write_offset u64

section \<open>Bit-field helpers\<close>

text \<open>
  Modelled from the spec: \<^verbatim>\<open>extract32\<close> and \<^verbatim>\<open>deposit32\<close> are declared in
  \<^verbatim>\<open>qemu/bitops.h\<close>, which is not among the sources at hand. The register map of the
  specification (one bit per pin in IDR and ODR, two bits per pin in MODER and PUPDR)
  fixes what they read and write: the field of \<open>length\<close> bits that starts at bit
  \<open>start\<close>. Both begin with
  \<^verbatim>\<open>assert(start >= 0 && length > 0 && length <= 32 - start)\<close>; a failed assertion
  aborts the process, which is the result \<open>None\<close>.
  \<^verbatim>\<open>extract32\<close> returns \<^verbatim>\<open>(value >> start) & (~0U >> (32 - length))\<close>;
  \<^verbatim>\<open>deposit32\<close> computes \<^verbatim>\<open>mask = (~0U >> (32 - length)) << start\<close> and returns
  \<^verbatim>\<open>(value & ~mask) | ((fieldval << start) & mask)\<close>.
\<close>

definition extract32 :: "u32 \<Rightarrow> int \<Rightarrow> int \<Rightarrow> u32 option" where
  "extract32 val start len =
     (if start \<ge> 0 \<and> len > 0 \<and> len \<le> 32 - start
      then Some (drop_bit (nat start) val AND drop_bit (nat (32 - len)) (NOT 0))
      else None)"

definition deposit32 :: "u32 \<Rightarrow> int \<Rightarrow> int \<Rightarrow> u32 \<Rightarrow> u32 option" where
  "deposit32 val start len fieldval =
     (if start \<ge> 0 \<and> len > 0 \<and> len \<le> 32 - start
      then (let msk = push_bit (nat start) (drop_bit (nat (32 - len)) (NOT 0 :: u32))
            in Some ((val AND NOT msk) OR (push_bit (nat start) fieldval AND msk)))
      else None)"

section \<open>Pin resolution: \<^verbatim>\<open>stm32_gpio_update_state\<close>\<close>

text \<open>
  One iteration of the loop body for pin \<open>i\<close>. The C locals \<^verbatim>\<open>prev_id, od, in, in_mask\<close>
  are \<^verbatim>\<open>bool\<close> (a non-zero field is true), \<^verbatim>\<open>mode\<close> and \<^verbatim>\<open>pupd\<close> are \<^verbatim>\<open>uint8_t\<close>.
  The result is the state with the new IDR and the events of this iteration.
\<close>

definition update_pin :: "nat \<Rightarrow> STM32GPIOState \<Rightarrow> (STM32GPIOState \<times> event list) option" where
  "update_pin i s = do {
     prev_w \<leftarrow> extract32 (idr s) (int i) 1;
     od_w \<leftarrow> extract32 (odr s) (int i) 1;
     in_w \<leftarrow> extract32 (in_val s) (int i) 1;
     in_mask_w \<leftarrow> extract32 (in_mask s) (int i) 1;
     mode_w \<leftarrow> extract32 (moder s) (int i * 2) 2;
     pupd_w \<leftarrow> extract32 (pupdr s) (int i * 2) 2;
     let prev_id = (prev_w \<noteq> 0);
     let od = (od_w \<noteq> 0);
     let inp = (in_w \<noteq> 0);
     let in_m = (in_mask_w \<noteq> 0);
     let mode = (ucast mode_w :: u8);
     let pupd = (ucast pupd_w :: u8);
     let ev_short = (if mode = STM32_GPIO_MODE_OUTPUT \<and> in_m then [Short_circuit i] else []);
     let new_id = (if in_m then inp
                   else if mode = STM32_GPIO_MODE_OUTPUT then od
                   else pupd = STM32_GPIO_PULL_UP);
     idr' \<leftarrow> deposit32 (idr s) (int i) 1 (of_bool new_id);
     let ev_irq = (if new_id \<noteq> prev_id
                   then (if mode = STM32_GPIO_MODE_INPUT then [Set_input_irq i new_id] else [])
                   else []);
     Some (s\<lparr>idr := idr'\<rparr>, ev_short @ ev_irq)
   }"

text \<open>
  The loop \<^verbatim>\<open>for (size_t i = 0; i < s->ngpio; i++)\<close>, from the counter \<open>i\<close> on; it
  returns the final state and the events of the remaining iterations.
\<close>

function update_loop :: "nat \<Rightarrow> STM32GPIOState \<Rightarrow> (STM32GPIOState \<times> event list) option" where
  "update_loop i s =
     (if i < unat (ngpio s)
      then (case update_pin i s of
              None \<Rightarrow> None
            | Some (s1, ev1) \<Rightarrow>
                (case update_loop (i + 1) s1 of
                   None \<Rightarrow> None
                 | Some (s2, ev2) \<Rightarrow> Some (s2, ev1 @ ev2)))
      else Some (s, []))"
  by pat_completeness auto
termination
  by (relation "measure (\<lambda>(i, s). unat (ngpio s) - i)")
     (auto simp: update_pin_def Let_def bind_eq_Some_conv)

definition stm32_gpio_update_state :: "STM32GPIOState \<Rightarrow> (STM32GPIOState \<times> event list) option" where
  "stm32_gpio_update_state s =
     (case update_loop 0 s of
        None \<Rightarrow> None
      | Some (s', evs) \<Rightarrow> Some (s', evs @ [Pulse_state_irq]))"

section \<open>Reset and the control lines\<close>

text \<open>
  \<^verbatim>\<open>stm32_gpio_reset\<close>: every configuration register to 0, then the particularities
  of the model (STM32F4, ports A and B), then a resolution. \<^verbatim>\<open>enable\<close>, \<^verbatim>\<open>reset\<close>
  and IDR are not assigned here.
\<close>

definition stm32_gpio_reset :: "STM32GPIOState \<Rightarrow> (STM32GPIOState \<times> event list) option" where
  "stm32_gpio_reset s =
     (let s0 = s\<lparr>moder := 0, otyper := 0, ospeedr := 0, pupdr := 0,
                  odr := 0, lckr := 0, aflr := 0, afhr := 0\<rparr>;
          s1 = (if family s0 = STM32_F4
                then (if port s0 = STM32_GPIO_PORT_A
                      then s0\<lparr>moder := 0xA8000000, pupdr := 0x64000000\<rparr>
                      else if port s0 = STM32_GPIO_PORT_B
                      then s0\<lparr>moder := 0x00000280, ospeedr := 0x000000C0, pupdr := 0x00000100\<rparr>
                      else s0)
                else s0)
      in stm32_gpio_update_state s1)"

text \<open>
  The handlers of the three incoming lines. \<open>line\<close> and \<open>val\<close> are C \<^verbatim>\<open>int\<close>s; the
  handlers only compare them with 0 and with \<^verbatim>\<open>ngpio\<close>.
\<close>

definition stm32_gpio_irq_reset ::
  "STM32GPIOState \<Rightarrow> int \<Rightarrow> int \<Rightarrow> (STM32GPIOState \<times> event list) option" where
  "stm32_gpio_irq_reset s line val =
     (let prev_reset = reset s;
          s1 = s\<lparr>reset := (val \<noteq> 0)\<rparr>
      in if prev_reset \<noteq> reset s1
         then (if reset s1 then stm32_gpio_reset s1 else stm32_gpio_update_state s1)
         else Some (s1, []))"

definition stm32_gpio_irq_enable ::
  "STM32GPIOState \<Rightarrow> int \<Rightarrow> int \<Rightarrow> (STM32GPIOState \<times> event list) option" where
  "stm32_gpio_irq_enable s line val =
     (let prev_enable = enable s;
          s1 = s\<lparr>enable := (val \<noteq> 0)\<rparr>
      in if prev_enable \<noteq> enable s1
         then stm32_gpio_update_state s1
         else Some (s1, []))"

text \<open>
  \<^verbatim>\<open>stm32_gpio_irq_set\<close>: \<^verbatim>\<open>assert(line >= 0 && line < s->ngpio)\<close>, then the
  presence bit of the pin is \<^verbatim>\<open>value >= 0\<close> and, only when the pin is driven, its level
  bit is \<^verbatim>\<open>value != 0\<close>.
\<close>

definition stm32_gpio_irq_set ::
  "STM32GPIOState \<Rightarrow> int \<Rightarrow> int \<Rightarrow> (STM32GPIOState \<times> event list) option" where
  "stm32_gpio_irq_set s line val =
     (if \<not> (line \<ge> 0 \<and> line < uint (ngpio s)) then None
      else do {
        m \<leftarrow> deposit32 (in_mask s) line 1 (of_bool (val \<ge> 0));
        let s1 = s\<lparr>in_mask := m\<rparr>;
        s2 \<leftarrow> (if val \<ge> 0
               then do {
                 v \<leftarrow> deposit32 (in_val s1) line 1 (of_bool (val \<noteq> 0));
                 Some (s1\<lparr>in_val := v\<rparr>)
               }
               else Some s1);
        stm32_gpio_update_state s2
      })"

section \<open>The register interface\<close>

text \<open>
  \<^verbatim>\<open>stm32_gpio_read\<close> returns the 64-bit result and the diagnostics it logs; it does
  not change the state.
\<close>

definition stm32_gpio_read :: "STM32GPIOState \<Rightarrow> u64 \<Rightarrow> u64 \<times> event list" where
  "stm32_gpio_read s offset =
     (if \<not> enable s then (0, [Disabled_access])
      else if offset = STM32_GPIO_REG_MODER then (ucast (moder s), [])
      else if offset = STM32_GPIO_REG_OTYPER then (ucast (otyper s), [])
      else if offset = STM32_GPIO_REG_OSPEEDR then (ucast (ospeedr s), [])
      else if offset = STM32_GPIO_REG_PUPDR then (ucast (pupdr s), [])
      else if offset = STM32_GPIO_REG_IDR then (ucast (idr s), [])
      else if offset = STM32_GPIO_REG_ODR then (ucast (odr s), [])
      else if offset = STM32_GPIO_REG_BSRR then (0, [])
      else if offset = STM32_GPIO_REG_LCKR then (ucast (lckr s), [])
      else if offset = STM32_GPIO_REG_AFRL then (ucast (aflr s), [])
      else if offset = STM32_GPIO_REG_AFRH then (ucast (afhr s), [])
      else if offset = STM32_GPIO_REG_BRR
      then (if family s \<noteq> STM32_F4 then (0, []) else (0, [Bad_read_offset offset]))
      else (0, [Bad_read_offset offset]))"

text \<open>
  The \<^verbatim>\<open>switch\<close> of \<^verbatim>\<open>stm32_gpio_write\<close>: the state after the register store and the
  diagnostics of the store. \<^verbatim>\<open>value\<close> is a \<^verbatim>\<open>uint64_t\<close>: an assignment to a register
  truncates it to 32 bits, and the compound assignments of BSRR and BRR are computed in
  64 bits and then truncated.
\<close>

definition stm32_gpio_write_switch :: "STM32GPIOState \<Rightarrow> u64 \<Rightarrow> u64 \<Rightarrow> STM32GPIOState \<times> event list" where
  "stm32_gpio_write_switch s offset val =
     (if offset = STM32_GPIO_REG_MODER then (s\<lparr>moder := ucast val\<rparr>, [])
      else if offset = STM32_GPIO_REG_OTYPER then (s\<lparr>otyper := ucast val\<rparr>, [])
      else if offset = STM32_GPIO_REG_OSPEEDR then (s\<lparr>ospeedr := ucast val\<rparr>, [])
      else if offset = STM32_GPIO_REG_PUPDR then (s\<lparr>pupdr := ucast val\<rparr>, [])
      else if offset = STM32_GPIO_REG_IDR then (s, [])
      else if offset = STM32_GPIO_REG_ODR then (s\<lparr>odr := ucast val\<rparr>, [])
      else if offset = STM32_GPIO_REG_BSRR
      then (let odr1 = (ucast ((ucast (odr s) :: u64) AND NOT (drop_bit 16 val AND 0xFFFF)) :: u32);
                odr2 = (ucast ((ucast odr1 :: u64) OR (val AND 0xFFFF)) :: u32)
            in (s\<lparr>odr := odr2\<rparr>, []))
      else if offset = STM32_GPIO_REG_LCKR then (s\<lparr>lckr := ucast val\<rparr>, [])
      else if offset = STM32_GPIO_REG_AFRL then (s\<lparr>aflr := ucast val\<rparr>, [])
      else if offset = STM32_GPIO_REG_AFRH then (s\<lparr>afhr := ucast val\<rparr>, [])
      else if offset = STM32_GPIO_REG_BRR
      then (if family s \<noteq> STM32_F4
            then (s\<lparr>odr := ucast ((ucast (odr s) :: u64) AND NOT (val AND 0xFFFF))\<rparr>, [])
            else (s, [Bad_write_offset offset]))
      else (s, [Bad_write_offset offset]))"

text \<open>
  \<^verbatim>\<open>stm32_gpio_write\<close>: the early return when the port is disabled, else the switch
  followed by \<^verbatim>\<open>stm32_gpio_update_state\<close>.
\<close>

definition stm32_gpio_write ::
  "STM32GPIOState \<Rightarrow> u64 \<Rightarrow> u64 \<Rightarrow> (STM32GPIOState \<times> event list) option" where
  "stm32_gpio_write s offset val =
     (if \<not> enable s then Some (s, [Disabled_access])
      else (case stm32_gpio_write_switch s offset val of
              (s1, ev1) \<Rightarrow>
                (case stm32_gpio_update_state s1 of
                   None \<Rightarrow> None
                 | Some (s2, ev2) \<Rightarrow> Some (s2, ev1 @ ev2))))"

section \<open>The specification's reading of the registers\<close>

text \<open>
  The data model of the specification, read off the packed registers bit by bit:
  \<open>mode[pin]\<close> is the two bits \<open>2 * pin + 1\<close> and \<open>2 * pin\<close> of MODER (0 input, 1 output,
  2 alternate function, 3 analog), \<open>pull[pin]\<close> the same two bits of PUPDR (0 none, 1 up,
  2 down; 3 is not a pull the specification names), \<open>requested_output[pin]\<close>,
  \<open>resolved_level[pin]\<close>, \<open>external_drive_present[pin]\<close> and
  \<open>external_drive_level[pin]\<close> the bit \<open>pin\<close> of ODR, IDR, \<^verbatim>\<open>in_mask\<close> and \<^verbatim>\<open>in\<close>.
\<close>

datatype gpio_mode = Input | Output | AlternateFunction | Analog

datatype gpio_pull = PullNone | PullUp | PullDown | PullReserved

definition pin_mode :: "STM32GPIOState \<Rightarrow> nat \<Rightarrow> gpio_mode" where
  "pin_mode s i =
     (if bit (moder s) (2 * i + 1)
      then (if bit (moder s) (2 * i) then Analog else AlternateFunction)
      else (if bit (moder s) (2 * i) then Output else Input))"

definition pin_pull :: "STM32GPIOState \<Rightarrow> nat \<Rightarrow> gpio_pull" where
  "pin_pull s i =
     (if bit (pupdr s) (2 * i + 1)
      then (if bit (pupdr s) (2 * i) then PullReserved else PullDown)
      else (if bit (pupdr s) (2 * i) then PullUp else PullNone))"

definition external_drive_present :: "STM32GPIOState \<Rightarrow> nat \<Rightarrow> bool" where
  "external_drive_present s i = bit (in_mask s) i"

definition external_drive_level :: "STM32GPIOState \<Rightarrow> nat \<Rightarrow> bool" where
  "external_drive_level s i = bit (in_val s) i"

definition requested_output :: "STM32GPIOState \<Rightarrow> nat \<Rightarrow> bool" where
  "requested_output s i = bit (odr s) i"

definition resolved_level :: "STM32GPIOState \<Rightarrow> nat \<Rightarrow> bool" where
  "resolved_level s i = bit (idr s) i"

text \<open>The level that step 3 of the resolution algorithm of the specification computes.\<close>

definition spec_level :: "STM32GPIOState \<Rightarrow> nat \<Rightarrow> bool" where
  "spec_level s i =
     (if external_drive_present s i then external_drive_level s i
      else if pin_mode s i = Output then requested_output s i
      else pin_pull s i = PullUp)"

text \<open>
  The IDR that a resolution of the state leaves: the bits of the pins below \<^verbatim>\<open>ngpio\<close>
  are recomputed, the bits above are left as they are.
\<close>

definition spec_idr :: "STM32GPIOState \<Rightarrow> u32" where
  "spec_idr s =
     horner_sum of_bool 2
       (map (\<lambda>i. if i < unat (ngpio s) then spec_level s i else bit (idr s) i) [0..<32])"

text \<open>
  The notifications of one pin in a resolution, in the specification's words: the
  hazard report of step 2 (Output mode and external drive present) and the per-pin edge
  notification of step 5 (the level changed and the pin is in Input mode), the latter
  carrying the new level.
\<close>

definition spec_hazard :: "STM32GPIOState \<Rightarrow> nat \<Rightarrow> bool" where
  "spec_hazard s i = (pin_mode s i = Output \<and> external_drive_present s i)"

definition spec_edge :: "STM32GPIOState \<Rightarrow> nat \<Rightarrow> bool" where
  "spec_edge s i = (spec_level s i \<noteq> resolved_level s i \<and> pin_mode s i = Input)"

definition spec_pin_events :: "STM32GPIOState \<Rightarrow> nat \<Rightarrow> event list" where
  "spec_pin_events s i =
     (if spec_hazard s i then [Short_circuit i] else []) @
     (if spec_edge s i then [Set_input_irq i (spec_level s i)] else [])"

definition spec_events :: "STM32GPIOState \<Rightarrow> event list" where
  "spec_events s =
     concat (map (spec_pin_events s) [0..<unat (ngpio s)]) @ [Pulse_state_irq]"

text \<open>The three kinds of events told apart.\<close>

fun is_input_irq :: "event \<Rightarrow> bool" where
  "is_input_irq (Set_input_irq i b) = True"
| "is_input_irq e = False"

fun is_short_circuit :: "event \<Rightarrow> bool" where
  "is_short_circuit (Short_circuit i) = True"
| "is_short_circuit e = False"

fun is_notification :: "event \<Rightarrow> bool" where
  "is_notification (Set_input_irq i b) = True"
| "is_notification Pulse_state_irq = True"
| "is_notification e = False"

section \<open>Example ports\<close>

text \<open>
  A 16-pin port A of an STM32F2: pin 3 is an output that requests a high level, pins 0
  and 3 are driven from outside (pin 0 high, pin 3 low), pin 1 has its pull-up on, and
  IDR still holds the levels from before the outside drive and the pull-up were applied
  (only pin 3 high).
\<close>

definition port_example :: STM32GPIOState where
  "port_example =
     \<lparr>moder = 0x40, otyper = 0, ospeedr = 0, pupdr = 0x4, idr = 0x8, odr = 0x8,
      lckr = 0, aflr = 0, afhr = 0, reset = False, enable = True,
      in_val = 0x1, in_mask = 0x9,
      family = STM32_F2, port = STM32_GPIO_PORT_A, ngpio = 16\<rparr>"

text \<open>
  The same kind of port right after the rising edge of its reset line: every register
  is 0, the port is enabled and held in reset, and nothing drives its pins.
\<close>

definition port_in_reset :: STM32GPIOState where
  "port_in_reset =
     \<lparr>moder = 0, otyper = 0, ospeedr = 0, pupdr = 0, idr = 0, odr = 0,
      lckr = 0, aflr = 0, afhr = 0, reset = True, enable = True,
      in_val = 0, in_mask = 0,
      family = STM32_F2, port = STM32_GPIO_PORT_A, ngpio = 16\<rparr>"

text \<open>
  A port A of an STM32F2 whose pin 0 is an output driving a high level; nothing drives
  the pins from outside, and IDR is resolved (pin 0 reads high).
\<close>

definition port_output_high :: STM32GPIOState where
  "port_output_high =
     \<lparr>moder = 0x1, otyper = 0, ospeedr = 0, pupdr = 0, idr = 0x1, odr = 0x1,
      lckr = 0, aflr = 0, afhr = 0, reset = False, enable = True,
      in_val = 0, in_mask = 0,
      family = STM32_F2, port = STM32_GPIO_PORT_A, ngpio = 16\<rparr>"

section \<open>Facts about the bit fields\<close>

lemmas reg_defs =
  STM32_GPIO_REG_MODER_def STM32_GPIO_REG_OTYPER_def STM32_GPIO_REG_OSPEEDR_def
  STM32_GPIO_REG_PUPDR_def STM32_GPIO_REG_IDR_def STM32_GPIO_REG_ODR_def
  STM32_GPIO_REG_BSRR_def STM32_GPIO_REG_LCKR_def STM32_GPIO_REG_AFRL_def
  STM32_GPIO_REG_AFRH_def STM32_GPIO_REG_BRR_def

lemmas enum_defs =
  STM32_F2_def STM32_F4_def STM32_GPIO_PORT_A_def STM32_GPIO_PORT_B_def
  STM32_GPIO_MODE_INPUT_def STM32_GPIO_MODE_OUTPUT_def STM32_GPIO_MODE_AF_def
  STM32_GPIO_MODE_ANALOG_def STM32_GPIO_PULL_NONE_def STM32_GPIO_PULL_UP_def
  STM32_GPIO_PULL_DOWN_def

declare update_loop.simps [simp del]

lemma extract32_eq:
  "0 \<le> start \<Longrightarrow> 0 < len \<Longrightarrow> len \<le> 32 - start \<Longrightarrow>
   extract32 v start len = Some (take_bit (nat len) (drop_bit (nat start) v))"
  apply (simp add: extract32_def)
  apply (rule bit_word_eqI)
  apply (auto simp: bit_simps)
  done

lemma take_bit1_nonzero: "(take_bit (Suc 0) (w::u32) \<noteq> 0) = bit w 0"
  by (simp add: take_bit_Suc bit_0 mod_2_eq_odd)

lemma field2_bits:
  fixes w :: u32
  shows "bit (ucast (take_bit 2 (drop_bit k w)) :: u8) n \<longleftrightarrow> n < 2 \<and> bit w (k + n)"
  by (auto simp: bit_simps)

lemma less2_cases: "(n::nat) < 2 \<longleftrightarrow> n = 0 \<or> n = 1"
  by auto

lemma field2_eq_1:
  fixes w :: u32
  shows "(ucast (take_bit 2 (drop_bit k w)) :: u8) = 1 \<longleftrightarrow> bit w k \<and> \<not> bit w (k + 1)"
proof
  assume h: "(ucast (take_bit 2 (drop_bit k w)) :: u8) = 1"
  have "bit (ucast (take_bit 2 (drop_bit k w)) :: u8) 0"
    and "\<not> bit (ucast (take_bit 2 (drop_bit k w)) :: u8) 1"
    unfolding h by simp_all
  then show "bit w k \<and> \<not> bit w (k + 1)"
    unfolding field2_bits by simp_all
next
  assume h: "bit w k \<and> \<not> bit w (k + 1)"
  show "(ucast (take_bit 2 (drop_bit k w)) :: u8) = 1"
  proof (rule bit_word_eqI)
    fix n
    show "bit (ucast (take_bit 2 (drop_bit k w)) :: u8) n = bit (1 :: u8) n"
      unfolding field2_bits using h less2_cases [of n] by (auto simp: bit_1_iff)
  qed
qed

lemma field2_eq_0:
  fixes w :: u32
  shows "(ucast (take_bit 2 (drop_bit k w)) :: u8) = 0 \<longleftrightarrow> \<not> bit w k \<and> \<not> bit w (k + 1)"
proof
  assume h: "(ucast (take_bit 2 (drop_bit k w)) :: u8) = 0"
  have "\<not> bit (ucast (take_bit 2 (drop_bit k w)) :: u8) 0"
    and "\<not> bit (ucast (take_bit 2 (drop_bit k w)) :: u8) 1"
    unfolding h by simp_all
  then show "\<not> bit w k \<and> \<not> bit w (k + 1)"
    unfolding field2_bits by simp_all
next
  assume h: "\<not> bit w k \<and> \<not> bit w (k + 1)"
  show "(ucast (take_bit 2 (drop_bit k w)) :: u8) = 0"
  proof (rule bit_word_eqI)
    fix n
    show "bit (ucast (take_bit 2 (drop_bit k w)) :: u8) n = bit (0 :: u8) n"
      unfolding field2_bits using h less2_cases [of n] by auto
  qed
qed

lemma deposit32_Some:
  "i < 32 \<Longrightarrow> \<exists>v'. deposit32 v (int i) 1 f = Some v'"
  by (simp add: deposit32_def Let_def)

lemma deposit32_bit:
  "i < 32 \<Longrightarrow> deposit32 v (int i) 1 (of_bool b) = Some v' \<Longrightarrow>
   bit v' j = (if j = i then b else bit v j)"
  using bit_imp_le_length [of v j] by (auto simp: deposit32_def Let_def bit_simps)

lemma bit_spec_idr:
  "bit (spec_idr s) j =
     (j < 32 \<and> (if j < unat (ngpio s) then spec_level s j else bit (idr s) j))"
  by (auto simp add: spec_idr_def bit_horner_sum_bit_iff)

lemma extract32_bit:
  assumes "i < 32"
  shows "extract32 v (int i) 1 = Some (of_bool (bit v i))"
proof -
  have "drop_bit i v AND drop_bit 31 (NOT 0 :: u32) = of_bool (bit v i)"
    by (rule bit_word_eqI) (auto simp: bit_simps)
  with assms show ?thesis by (simp add: extract32_def)
qed

lemma extract32_field2:
  assumes "i < 16"
  shows "extract32 v (int i * 2) 2 = Some (take_bit 2 (drop_bit (2 * i) v))"
  using assms by (simp add: extract32_eq nat_mult_distrib mult.commute)

lemma of_bool_nonzero: "(of_bool b \<noteq> (0::u32)) = b"
  by simp

section \<open>The resolution computes the specification's levels and notifications\<close>

lemma update_pin_eq:
  assumes "i < 16"
  shows "\<exists>w. update_pin i s = Some (s\<lparr>idr := w\<rparr>, spec_pin_events s i) \<and>
             (\<forall>j. bit w j = (if j = i then spec_level s i else bit (idr s) j))"
proof -
  from assms obtain w where w: "deposit32 (idr s) (int i) 1 (of_bool (spec_level s i)) = Some w"
    using deposit32_Some [of i "idr s" "of_bool (spec_level s i)"] by auto
  have m1: "(ucast (take_bit 2 (drop_bit (2 * i) (moder s))) :: u8) = 1 \<longleftrightarrow> pin_mode s i = Output"
    by (auto simp: field2_eq_1 pin_mode_def)
  have m0: "(ucast (take_bit 2 (drop_bit (2 * i) (moder s))) :: u8) = 0 \<longleftrightarrow> pin_mode s i = Input"
    by (auto simp: field2_eq_0 pin_mode_def)
  have p1: "(ucast (take_bit 2 (drop_bit (2 * i) (pupdr s))) :: u8) = 1 \<longleftrightarrow> pin_pull s i = PullUp"
    by (auto simp: field2_eq_1 pin_pull_def)
  have lvl: "(if bit (in_mask s) i then bit (in_val s) i
              else if pin_mode s i = Output then bit (odr s) i
                   else pin_pull s i = PullUp) = spec_level s i"
    by (simp add: spec_level_def external_drive_present_def external_drive_level_def requested_output_def)
  have i32: "i < 32" using assms by simp
  have "update_pin i s = Some (s\<lparr>idr := w\<rparr>, spec_pin_events s i)"
    unfolding update_pin_def extract32_bit [OF i32] extract32_field2 [OF assms]
      Option.bind.simps Let_def of_bool_nonzero enum_defs m1 m0 p1 lvl w
    by (simp add: spec_pin_events_def spec_hazard_def spec_edge_def external_drive_present_def resolved_level_def)
  moreover have "\<forall>j. bit w j = (if j = i then spec_level s i else bit (idr s) j)"
    using deposit32_bit [OF _ w] assms by simp
  ultimately show ?thesis by blast
qed

lemma spec_pin_events_idr:
  "bit w i = bit (idr s) i \<Longrightarrow> spec_pin_events (s\<lparr>idr := w\<rparr>) i = spec_pin_events s i"
  by (simp add: spec_pin_events_def spec_hazard_def spec_edge_def spec_level_def pin_mode_def pin_pull_def
     external_drive_present_def external_drive_level_def requested_output_def resolved_level_def)

lemma spec_level_idr: "spec_level (s\<lparr>idr := w\<rparr>) i = spec_level s i"
  by (simp add: spec_level_def pin_mode_def pin_pull_def
     external_drive_present_def external_drive_level_def requested_output_def)

lemma update_loop_eq:
  "unat (ngpio s) \<le> 16 \<Longrightarrow>
   \<exists>w. update_loop i s = Some (s\<lparr>idr := w\<rparr>, concat (map (spec_pin_events s) [i..<unat (ngpio s)])) \<and>
       (\<forall>j. bit w j = (if i \<le> j \<and> j < unat (ngpio s) then spec_level s j else bit (idr s) j))"
proof (induction "unat (ngpio s) - i" arbitrary: i s)
  case 0
  then have le: "unat (ngpio s) \<le> i" by simp
  then have "update_loop i s = Some (s\<lparr>idr := idr s\<rparr>, concat (map (spec_pin_events s) [i..<unat (ngpio s)]))"
    by (simp add: update_loop.simps)
  moreover have "\<forall>j. bit (idr s) j = (if i \<le> j \<and> j < unat (ngpio s) then spec_level s j else bit (idr s) j)"
    using le by auto
  ultimately show ?case by blast
next
  case (Suc k)
  then have lt: "i < unat (ngpio s)" and i16: "i < 16" by auto
  from update_pin_eq [OF i16, of s] obtain w1 where
    w1: "update_pin i s = Some (s\<lparr>idr := w1\<rparr>, spec_pin_events s i)"
    and b1: "\<And>j. bit w1 j = (if j = i then spec_level s i else bit (idr s) j)" by blast
  let ?s1 = "s\<lparr>idr := w1\<rparr>"
  have "k = unat (ngpio ?s1) - (i + 1)" using Suc by simp
  moreover have "unat (ngpio ?s1) \<le> 16" using Suc by simp
  ultimately obtain w2 where
    w2: "update_loop (i + 1) ?s1 = Some (?s1\<lparr>idr := w2\<rparr>, concat (map (spec_pin_events ?s1) [i + 1..<unat (ngpio ?s1)]))"
    and b2: "\<And>j. bit w2 j = (if i + 1 \<le> j \<and> j < unat (ngpio ?s1) then spec_level ?s1 j else bit (idr ?s1) j)"
    using Suc.hyps(1) [of ?s1 "i + 1"] by blast
  have ev: "map (spec_pin_events ?s1) [i + 1..<unat (ngpio s)] = map (spec_pin_events s) [i + 1..<unat (ngpio s)]"
    by (rule map_cong) (auto simp: spec_pin_events_idr b1)
  have ev': "concat (map (spec_pin_events ?s1) [Suc i..<unat (ngpio s)]) = concat (map (spec_pin_events s) [Suc i..<unat (ngpio s)])"
    using ev by (simp only: Suc_eq_plus1)
  have "update_loop i s = Some (s\<lparr>idr := w2\<rparr>, concat (map (spec_pin_events s) [i..<unat (ngpio s)]))"
    using lt w1 w2 by (subst update_loop.simps) (simp add: upt_conv_Cons ev')
  moreover have "\<forall>j. bit w2 j = (if i \<le> j \<and> j < unat (ngpio s) then spec_level s j else bit (idr s) j)"
    using b1 b2 lt by (auto simp: spec_level_idr)
  ultimately show ?case by blast
qed

lemma update_state_eq:
  assumes "unat (ngpio s) \<le> 16"
  shows "stm32_gpio_update_state s = Some (s\<lparr>idr := spec_idr s\<rparr>, spec_events s)"
proof -
  from update_loop_eq [OF assms, of 0] obtain w where
    w: "update_loop 0 s = Some (s\<lparr>idr := w\<rparr>, concat (map (spec_pin_events s) [0..<unat (ngpio s)]))"
    and b: "\<And>j. bit w j = (if j < unat (ngpio s) then spec_level s j else bit (idr s) j)" by auto
  have "w = spec_idr s"
    by (rule bit_word_eqI) (simp add: b bit_spec_idr)
  with w show ?thesis by (simp add: stm32_gpio_update_state_def spec_events_def)
qed

lemma resolved_level_spec_idr:
  "i < unat (ngpio s) \<Longrightarrow> unat (ngpio s) \<le> 16 \<Longrightarrow>
   resolved_level (s\<lparr>idr := spec_idr s\<rparr>) i = spec_level s i"
  by (simp add: resolved_level_def bit_spec_idr)

lemma spec_idr_idem: "spec_idr (s\<lparr>idr := spec_idr s\<rparr>) = spec_idr s"
  by (rule bit_word_eqI) (simp add: bit_spec_idr spec_level_idr)

lemma filter_irq_pin_events:
  "filter is_input_irq (concat (map (spec_pin_events s) xs)) =
   map (\<lambda>i. Set_input_irq i (spec_level s i)) (filter (spec_edge s) xs)"
  by (induction xs) (simp_all add: spec_pin_events_def)

lemma filter_short_pin_events:
  "filter is_short_circuit (concat (map (spec_pin_events s) xs)) =
   map Short_circuit (filter (spec_hazard s) xs)"
  by (induction xs) (simp_all add: spec_pin_events_def)

lemma pulse_notin_pin_events:
  "Pulse_state_irq \<notin> set (concat (map (spec_pin_events s) xs))"
  by (induction xs) (simp_all add: spec_pin_events_def)

lemma count_pulse_pin_events:
  "count_list (concat (map (spec_pin_events s) xs)) Pulse_state_irq = 0"
  using pulse_notin_pin_events by (simp add: count_list_0_iff)

lemma count_pulse_spec_events: "count_list (spec_events s) Pulse_state_irq = 1"
  by (simp add: spec_events_def count_pulse_pin_events)

lemma last_spec_events: "last (spec_events s) = Pulse_state_irq"
  by (simp add: spec_events_def)

lemma filter_irq_spec_events:
  "filter is_input_irq (spec_events s) =
   map (\<lambda>i. Set_input_irq i (spec_level s i)) (filter (spec_edge s) [0..<unat (ngpio s)])"
  by (simp add: spec_events_def filter_irq_pin_events)

lemma filter_short_spec_events:
  "filter is_short_circuit (spec_events s) =
   map Short_circuit (filter (spec_hazard s) [0..<unat (ngpio s)])"
  by (simp add: spec_events_def filter_short_pin_events)

lemma irq_in_spec_events:
  "Set_input_irq i b \<in> set (spec_events s) \<longleftrightarrow>
   i < unat (ngpio s) \<and> spec_edge s i \<and> b = spec_level s i"
proof -
  have "Set_input_irq i b \<in> set (spec_events s) \<longleftrightarrow>
        Set_input_irq i b \<in> set (filter is_input_irq (spec_events s))"
    by simp
  also have "\<dots> \<longleftrightarrow> i < unat (ngpio s) \<and> spec_edge s i \<and> b = spec_level s i"
    unfolding filter_irq_spec_events by auto
  finally show ?thesis .
qed

lemma short_in_spec_events:
  "Short_circuit i \<in> set (spec_events s) \<longleftrightarrow> i < unat (ngpio s) \<and> spec_hazard s i"
proof -
  have "Short_circuit i \<in> set (spec_events s) \<longleftrightarrow>
        Short_circuit i \<in> set (filter is_short_circuit (spec_events s))"
    by simp
  also have "\<dots> \<longleftrightarrow> i < unat (ngpio s) \<and> spec_hazard s i"
    unfolding filter_short_spec_events by auto
  finally show ?thesis .
qed

text \<open>
  A resolution leaves a resolved port, so every state that the operations of the device
  reach from a resolved one is resolved.
\<close>

lemma update_state_resolved:
  assumes "unat (ngpio s) \<le> 16" and "stm32_gpio_update_state s = Some (s', evs)"
  shows "idr s' = spec_idr s'"
  using assms by (auto simp: update_state_eq spec_idr_idem)

text \<open>
  The bound of 16 pins is needed: with more, the iteration for pin 16 asks \<^verbatim>\<open>extract32\<close>
  for the two bits from bit 32 of MODER, the assertion fails and the resolution never
  returns.
\<close>

lemma update_pin_16: "update_pin 16 s = None"
  by (simp add: update_pin_def extract32_def)

lemma update_pin_ngpio:
  "update_pin i s = Some (s1, ev) \<Longrightarrow> ngpio s1 = ngpio s"
  by (auto simp: update_pin_def Let_def bind_eq_Some_conv)

lemma update_loop_aborts:
  "16 < unat (ngpio s) \<Longrightarrow> i \<le> 16 \<Longrightarrow> update_loop i s = None"
proof (induction "16 - i" arbitrary: i s)
  case 0
  then have "i = 16" by simp
  with 0 show ?case by (subst update_loop.simps) (simp add: update_pin_16)
next
  case (Suc k)
  then have i: "i < 16" by simp
  from update_pin_eq [OF i, of s] obtain w where
    w: "update_pin i s = Some (s\<lparr>idr := w\<rparr>, spec_pin_events s i)" by blast
  have "update_loop (i + 1) (s\<lparr>idr := w\<rparr>) = None"
    using Suc by (intro Suc.hyps(1)) simp_all
  with w Suc.prems i show ?case by (subst update_loop.simps) simp
qed

lemma update_state_aborts:
  "16 < unat (ngpio s) \<Longrightarrow> stm32_gpio_update_state s = None"
  by (simp add: stm32_gpio_update_state_def update_loop_aborts)

section \<open>Facts about the register interface and the control lines\<close>

lemma ffff_mask: "(0xFFFF :: 'a::len word) = mask 16"
  by (simp add: mask_eq_exp_minus_1)

lemma bsrr_word:
  fixes v :: u32 and w :: u32
  shows "(ucast ((ucast (ucast ((ucast w :: u64) AND NOT (drop_bit 16 (ucast v) AND 0xFFFF)) :: u32) :: u64)
            OR (ucast v AND 0xFFFF)) :: u32)
         = (w AND NOT (drop_bit 16 v AND 0xFFFF)) OR (v AND 0xFFFF)"
  unfolding ffff_mask
  by (rule bit_word_eqI) (auto simp: bit_simps)

lemma brr_word:
  fixes v :: u64 and w :: u32
  shows "(ucast ((ucast w :: u64) AND NOT (v AND 0xFFFF)) :: u32) = w AND NOT (ucast v AND 0xFFFF)"
  unfolding ffff_mask
  by (rule bit_word_eqI) (auto simp: bit_simps)

lemma bit_and_ffff:
  fixes v :: "'a::len word"
  shows "bit (v AND 0xFFFF) i \<longleftrightarrow> i < 16 \<and> bit v i"
  unfolding ffff_mask using bit_imp_le_length [of v i] by (auto simp: bit_simps)

lemma brr_bits:
  fixes w :: u32 and v :: u64
  shows "bit (w AND NOT (ucast v AND 0xFFFF)) i = (bit w i \<and> \<not> (i < 16 \<and> bit v i))"
  unfolding ffff_mask using bit_imp_le_length [of w i] by (auto simp: bit_simps)

lemma write_enabled:
  assumes "enable s" and "unat (ngpio s) \<le> 16"
    and "stm32_gpio_write_switch s offset v = (s1, ev1)"
    and "ngpio s1 = ngpio s"
  shows "stm32_gpio_write s offset v = Some (s1\<lparr>idr := spec_idr s1\<rparr>, ev1 @ spec_events s1)"
  using assms by (simp add: stm32_gpio_write_def update_state_eq)

lemma write_switch_ngpio:
  "stm32_gpio_write_switch s offset v = (s1, ev1) \<Longrightarrow> ngpio s1 = ngpio s"
  by (auto simp: stm32_gpio_write_switch_def Let_def split: if_splits)

lemma spec_idr_fixpoint_state: "idr s = spec_idr s \<Longrightarrow> s\<lparr>idr := spec_idr s\<rparr> = s"
  by (cases s) simp

lemma notification_free_switch:
  "stm32_gpio_write_switch s offset v = (s1, ev1) \<Longrightarrow> filter is_notification ev1 = []"
  by (auto simp: stm32_gpio_write_switch_def Let_def split: if_splits)

lemma count_pulse_no_notification:
  "filter is_notification evs = [] \<Longrightarrow> count_list evs Pulse_state_irq = 0"
  by (induction evs) (auto split: if_splits)

lemma read_disable_cycle:
  "enable s \<Longrightarrow> offset \<noteq> STM32_GPIO_REG_IDR \<Longrightarrow>
   stm32_gpio_read (s\<lparr>idr := w\<rparr>) offset = stm32_gpio_read s offset"
  by (simp add: stm32_gpio_read_def)

lemma spec_level_cong:
  assumes "moder s = moder t" and "pupdr s = pupdr t" and "odr s = odr t"
    and "in_val s = in_val t" and "in_mask s = in_mask t"
  shows "spec_level s i = spec_level t i"
  using assms
  by (simp add: spec_level_def pin_mode_def pin_pull_def
      external_drive_present_def external_drive_level_def requested_output_def)

lemma spec_idr_cong:
  assumes "moder s = moder t" and "pupdr s = pupdr t" and "odr s = odr t"
    and "in_val s = in_val t" and "in_mask s = in_mask t"
    and "idr s = idr t" and "ngpio s = ngpio t"
  shows "spec_idr s = spec_idr t"
  using assms spec_level_cong [of s t]
  by (intro bit_word_eqI) (simp add: bit_spec_idr)

lemma spec_pin_events_cong:
  assumes "moder s = moder t" and "pupdr s = pupdr t" and "odr s = odr t"
    and "in_val s = in_val t" and "in_mask s = in_mask t"
    and "idr s = idr t"
  shows "spec_pin_events s = spec_pin_events t"
  using assms spec_level_cong [of s t]
  by (intro ext)
     (simp add: spec_pin_events_def spec_hazard_def spec_edge_def pin_mode_def
        resolved_level_def external_drive_present_def)

lemma spec_events_cong:
  assumes "moder s = moder t" and "pupdr s = pupdr t" and "odr s = odr t"
    and "in_val s = in_val t" and "in_mask s = in_mask t"
    and "idr s = idr t" and "ngpio s = ngpio t"
  shows "spec_events s = spec_events t"
  using assms spec_pin_events_cong [of s t] by (simp add: spec_events_def)

lemma spec_idr_enable: "spec_idr (s\<lparr>enable := b\<rparr>) = spec_idr s"
  by (rule spec_idr_cong) simp_all

lemma spec_idr_reset: "spec_idr (s\<lparr>reset := b\<rparr>) = spec_idr s"
  by (rule spec_idr_cong) simp_all

lemma spec_events_enable: "spec_events (s\<lparr>enable := b\<rparr>) = spec_events s"
  by (rule spec_events_cong) simp_all

lemma spec_events_reset: "spec_events (s\<lparr>reset := b\<rparr>) = spec_events s"
  by (rule spec_events_cong) simp_all

lemma irq_reset_rising:
  assumes "\<not> reset s" and "val \<noteq> 0" and "unat (ngpio s) \<le> 16"
  shows "\<exists>d. stm32_gpio_irq_reset s line val = Some (d\<lparr>idr := spec_idr d\<rparr>, spec_events d) \<and>
             d = s\<lparr>reset := True,
                   moder := (if family s = STM32_F4 \<and> port s = STM32_GPIO_PORT_A then 0xA8000000
                             else if family s = STM32_F4 \<and> port s = STM32_GPIO_PORT_B then 0x00000280
                             else 0),
                   otyper := 0,
                   ospeedr := (if family s = STM32_F4 \<and> port s = STM32_GPIO_PORT_B then 0x000000C0 else 0),
                   pupdr := (if family s = STM32_F4 \<and> port s = STM32_GPIO_PORT_A then 0x64000000
                             else if family s = STM32_F4 \<and> port s = STM32_GPIO_PORT_B then 0x00000100
                             else 0),
                   odr := 0, lckr := 0, aflr := 0, afhr := 0\<rparr>"
  using assms
  by (cases s)
     (simp add: stm32_gpio_irq_reset_def stm32_gpio_reset_def Let_def update_state_eq enum_defs)

lemma irq_reset_falling:
  assumes "reset s" and "unat (ngpio s) \<le> 16"
  shows "stm32_gpio_irq_reset s line 0 =
           Some (s\<lparr>reset := False, idr := spec_idr s\<rparr>, spec_events s)"
  using assms
  by (simp add: stm32_gpio_irq_reset_def update_state_eq spec_idr_reset spec_events_reset)

lemma write_switch_reset:
  "stm32_gpio_write_switch (s\<lparr>reset := b\<rparr>) offset v =
     (case stm32_gpio_write_switch s offset v of (s1, ev1) \<Rightarrow> (s1\<lparr>reset := b\<rparr>, ev1))"
  by (cases s) (simp add: stm32_gpio_write_switch_def Let_def)

lemma write_switch_reset_flag:
  "stm32_gpio_write_switch s offset v = (s1, ev1) \<Longrightarrow> reset s1 = reset s"
  by (auto simp: stm32_gpio_write_switch_def Let_def split: if_splits)

lemma write_switch_stores:
  assumes "stm32_gpio_write_switch s offset v = (s1, ev1)"
  shows "(offset = STM32_GPIO_REG_MODER \<longrightarrow> moder s1 = ucast v) \<and>
         (offset = STM32_GPIO_REG_OTYPER \<longrightarrow> otyper s1 = ucast v) \<and>
         (offset = STM32_GPIO_REG_OSPEEDR \<longrightarrow> ospeedr s1 = ucast v) \<and>
         (offset = STM32_GPIO_REG_PUPDR \<longrightarrow> pupdr s1 = ucast v) \<and>
         (offset = STM32_GPIO_REG_ODR \<longrightarrow> odr s1 = ucast v) \<and>
         (offset = STM32_GPIO_REG_LCKR \<longrightarrow> lckr s1 = ucast v) \<and>
         (offset = STM32_GPIO_REG_AFRL \<longrightarrow> aflr s1 = ucast v) \<and>
         (offset = STM32_GPIO_REG_AFRH \<longrightarrow> afhr s1 = ucast v)"
  using assms by (auto simp: stm32_gpio_write_switch_def reg_defs)

lemma concat_map_Nil: "(\<And>x. x \<in> set xs \<Longrightarrow> f x = []) \<Longrightarrow> concat (map f xs) = []"
  by (induction xs) simp_all

lemma port_in_reset_resolved:
  "spec_idr (port_in_reset\<lparr>moder := m, reset := r\<rparr>) = 0"
  by (rule bit_word_eqI)
     (simp add: bit_spec_idr port_in_reset_def spec_level_def external_drive_present_def
        requested_output_def pin_pull_def)

lemma port_in_reset_events:
  "spec_events (port_in_reset\<lparr>moder := m, reset := r\<rparr>) = [Pulse_state_irq]"
  by (simp add: spec_events_def concat_map_Nil spec_pin_events_def spec_hazard_def spec_edge_def
        port_in_reset_def spec_level_def external_drive_present_def resolved_level_def
        requested_output_def pin_pull_def)

lemma irq_set_eq:
  assumes "0 \<le> line" and "line < uint (ngpio s)" and "unat (ngpio s) \<le> 16"
  shows "\<exists>d. stm32_gpio_irq_set s line val = Some (d\<lparr>idr := spec_idr d\<rparr>, spec_events d) \<and>
             moder d = moder s \<and> otyper d = otyper s \<and> ospeedr d = ospeedr s \<and>
             pupdr d = pupdr s \<and> idr d = idr s \<and> odr d = odr s \<and> lckr d = lckr s \<and>
             aflr d = aflr s \<and> afhr d = afhr s \<and> reset d = reset s \<and> enable d = enable s \<and>
             family d = family s \<and> port d = port s \<and> ngpio d = ngpio s \<and>
             (\<forall>j. bit (in_mask d) j = (if j = nat line then val \<ge> 0 else bit (in_mask s) j)) \<and>
             (\<forall>j. bit (in_val d) j = (if j = nat line \<and> val \<ge> 0 then val \<noteq> 0 else bit (in_val s) j))"
proof -
  have l: "int (nat line) = line" using assms(1) by simp
  have "nat line < unat (ngpio s)" using assms(1,2) by (simp add: nat_less_iff)
  then have l32: "nat line < 32" using assms(3) by simp
  obtain m where m: "deposit32 (in_mask s) (int (nat line)) 1 (of_bool (val \<ge> 0)) = Some m"
    using deposit32_Some [OF l32] by blast
  obtain w where w: "deposit32 (in_val s) (int (nat line)) 1 (of_bool (val \<noteq> 0)) = Some w"
    using deposit32_Some [OF l32] by blast
  note bm = deposit32_bit [OF l32 m]
  note bw = deposit32_bit [OF l32 w]
  show ?thesis
  proof (cases "val \<ge> 0")
    case True
    let ?d = "s\<lparr>in_mask := m, in_val := w\<rparr>"
    have "stm32_gpio_irq_set s line val = Some (?d\<lparr>idr := spec_idr ?d\<rparr>, spec_events ?d)"
      using assms True m w unfolding l
      by (simp add: stm32_gpio_irq_set_def update_state_eq Let_def)
    then show ?thesis using True bm bw by (intro exI [of _ ?d]) simp
  next
    case False
    let ?d = "s\<lparr>in_mask := m\<rparr>"
    have "stm32_gpio_irq_set s line val = Some (?d\<lparr>idr := spec_idr ?d\<rparr>, spec_events ?d)"
      using assms False m unfolding l
      by (simp add: stm32_gpio_irq_set_def update_state_eq Let_def)
    then show ?thesis using False bm by (intro exI [of _ ?d]) simp
  qed
qed

lemma port_example_levels:
  "spec_level port_example 0" "spec_level port_example 1"
  "\<not> spec_level port_example 2" "\<not> spec_level port_example 3"
  "\<not> resolved_level port_example 0" "resolved_level port_example 3"
  "pin_mode port_example 0 = Input" "pin_mode port_example 3 = Output"
  "external_drive_present port_example 0" "external_drive_present port_example 3"
  by (simp_all add: port_example_def spec_level_def external_drive_present_def
        external_drive_level_def pin_mode_def pin_pull_def requested_output_def
        resolved_level_def)

lemma port_example_resolved:
  "stm32_gpio_update_state port_example =
     Some (port_example\<lparr>idr := spec_idr port_example\<rparr>, spec_events port_example)"
  by (rule update_state_eq) (simp add: port_example_def)

lemma port_example_resolved_level:
  "i < 16 \<Longrightarrow>
   resolved_level (port_example\<lparr>idr := spec_idr port_example\<rparr>) i = spec_level port_example i"
  by (rule resolved_level_spec_idr) (simp_all add: port_example_def)

lemma port_output_high_level:
  "spec_level (port_output_high\<lparr>odr := w\<rparr>) i = (i = 0 \<and> bit w 0)"
  by (auto simp: port_output_high_def spec_level_def external_drive_present_def
        requested_output_def pin_pull_def pin_mode_def bit_1_iff)

lemma port_output_high_fields:
  "ngpio port_output_high = 16" "idr port_output_high = 1" "moder port_output_high = 1"
  "in_mask port_output_high = 0"
  by (simp_all add: port_output_high_def)

lemma port_output_high_idr:
  "spec_idr (port_output_high\<lparr>odr := 1\<rparr>) = 1" "spec_idr (port_output_high\<lparr>odr := 0\<rparr>) = 0"
  by (rule bit_word_eqI,
      auto simp: bit_spec_idr port_output_high_level port_output_high_fields bit_1_iff)+

lemma port_output_high_pin_events:
  "spec_pin_events (port_output_high\<lparr>odr := w\<rparr>) i = []"
  by (cases "i = 0")
     (simp_all add: spec_pin_events_def spec_hazard_def spec_edge_def external_drive_present_def
        port_output_high_level resolved_level_def pin_mode_def port_output_high_fields bit_1_iff)

lemma port_output_high_events:
  "spec_events (port_output_high\<lparr>odr := w\<rparr>) = [Pulse_state_irq]"
  by (simp add: spec_events_def concat_map_Nil port_output_high_pin_events)

section \<open>Claims about the resolution step\<close>

text \<open>
  C1. For every pin \<open>i\<close> below the pin count, after a resolution the resolved level
  in bit \<open>i\<close> of IDR follows one precedence: the external drive level when the pin is
  driven from outside, whatever its mode; otherwise bit \<open>i\<close> of ODR when the pin is
  an output; otherwise whether the pull of the pin is the pull-up, so that pull-down and
  no pull both give a low level. The resolution returns for every port of at most 16
  pins.
\<close>

theorem resolve_precedence:
  assumes "unat (ngpio s) \<le> 16"
  shows "\<exists>s' evs. stm32_gpio_update_state s = Some (s', evs) \<and>
           (\<forall>i < unat (ngpio s).
              resolved_level s' i =
                (if external_drive_present s i then external_drive_level s i
                 else if pin_mode s i = Output then requested_output s i
                 else pin_pull s i = PullUp))"
  using assms
  by (simp add: update_state_eq resolved_level_spec_idr spec_level_def)

text \<open>
  On the example port: pin 0 is driven high from outside, pin 1 floats with its pull-up
  on, pin 2 floats without a pull, and pin 3 is an output requesting a high level that
  is driven low from outside.
\<close>

theorem resolve_precedence_witness:
  "unat (ngpio port_example) \<le> 16 \<and>
   (\<exists>s' evs. stm32_gpio_update_state port_example = Some (s', evs) \<and>
      resolved_level s' 0 \<and> resolved_level s' 1 \<and> \<not> resolved_level s' 2 \<and> \<not> resolved_level s' 3)"
proof -
  have n: "unat (ngpio port_example) = 16" by (simp add: port_example_def)
  then have h: "unat (ngpio port_example) \<le> 16" by simp
  from resolve_precedence [OF h] obtain s' evs where
    r: "stm32_gpio_update_state port_example = Some (s', evs)" and
    l: "\<And>i. i < 16 \<Longrightarrow> resolved_level s' i =
                (if external_drive_present port_example i then external_drive_level port_example i
                 else if pin_mode port_example i = Output then requested_output port_example i
                 else pin_pull port_example i = PullUp)"
    unfolding n by blast
  have "resolved_level s' 0" "resolved_level s' 1" "\<not> resolved_level s' 2" "\<not> resolved_level s' 3"
    by (simp_all add: l port_example_def external_drive_present_def external_drive_level_def
          pin_mode_def pin_pull_def requested_output_def)
  with h r show ?thesis by blast
qed

text \<open>
  C5. In a resolution, the per-pin edge notification of pin \<open>i\<close> is sent if and only
  if the resolved level of the pin changed and the pin is in Input mode, and it carries
  the new level; a pin whose level changes in another mode sends none. The second
  conjunct says the same of the whole sequence: one notification per such pin, in the
  order of the pins.
\<close>

theorem resolve_edge_notifications:
  assumes "unat (ngpio s) \<le> 16"
  shows "\<exists>s' evs. stm32_gpio_update_state s = Some (s', evs) \<and>
           (\<forall>i b. Set_input_irq i b \<in> set evs \<longleftrightarrow>
                    i < unat (ngpio s) \<and> resolved_level s' i \<noteq> resolved_level s i \<and>
                    pin_mode s i = Input \<and> b = resolved_level s' i) \<and>
           filter is_input_irq evs =
             map (\<lambda>i. Set_input_irq i (resolved_level s' i))
               (filter (\<lambda>i. resolved_level s' i \<noteq> resolved_level s i \<and> pin_mode s i = Input)
                  [0..<unat (ngpio s)])"
proof -
  let ?s' = "s\<lparr>idr := spec_idr s\<rparr>"
  have lv: "\<And>i. i < unat (ngpio s) \<Longrightarrow> resolved_level ?s' i = spec_level s i"
    using assms by (simp add: resolved_level_spec_idr)
  have a: "\<forall>i b. Set_input_irq i b \<in> set (spec_events s) \<longleftrightarrow>
                    i < unat (ngpio s) \<and> resolved_level ?s' i \<noteq> resolved_level s i \<and>
                    pin_mode s i = Input \<and> b = resolved_level ?s' i"
    unfolding irq_in_spec_events using lv by (auto simp: spec_edge_def)
  have f: "filter (spec_edge s) [0..<unat (ngpio s)] =
           filter (\<lambda>i. resolved_level ?s' i \<noteq> resolved_level s i \<and> pin_mode s i = Input) [0..<unat (ngpio s)]"
    by (rule filter_cong) (auto simp: spec_edge_def lv)
  have b: "filter is_input_irq (spec_events s) =
             map (\<lambda>i. Set_input_irq i (resolved_level ?s' i))
               (filter (\<lambda>i. resolved_level ?s' i \<noteq> resolved_level s i \<and> pin_mode s i = Input)
                  [0..<unat (ngpio s)])"
    unfolding filter_irq_spec_events f
    by (rule map_cong) (auto simp: lv)
  show ?thesis
    unfolding update_state_eq [OF assms] using a b by blast
qed

text \<open>
  On the example port, pin 0 is an input that goes high: its notification is sent with
  the level True. Pin 3 goes from high to low, but it is an output: nothing is sent
  for it.
\<close>

theorem resolve_edge_notifications_witness:
  "unat (ngpio port_example) \<le> 16 \<and>
   (\<exists>s' evs. stm32_gpio_update_state port_example = Some (s', evs) \<and>
      Set_input_irq 0 True \<in> set evs \<and>
      resolved_level port_example 3 \<and> \<not> resolved_level s' 3 \<and>
      Set_input_irq 3 False \<notin> set evs)"
proof -
  let ?s' = "port_example\<lparr>idr := spec_idr port_example\<rparr>"
  have n: "unat (ngpio port_example) = 16" by (simp add: port_example_def)
  then have h: "unat (ngpio port_example) \<le> 16" by simp
  from resolve_edge_notifications [OF h] have
    iff: "\<And>i b. Set_input_irq i b \<in> set (spec_events port_example) \<longleftrightarrow>
                    i < 16 \<and> resolved_level ?s' i \<noteq> resolved_level port_example i \<and>
                    pin_mode port_example i = Input \<and> b = resolved_level ?s' i"
    unfolding port_example_resolved n by simp
  have a: "Set_input_irq 0 True \<in> set (spec_events port_example)"
    unfolding iff by (simp add: port_example_resolved_level port_example_levels)
  have b: "Set_input_irq 3 False \<notin> set (spec_events port_example)"
    unfolding iff by (simp add: port_example_levels)
  have c: "\<not> resolved_level ?s' 3"
    by (simp add: port_example_resolved_level port_example_levels)
  from h a b c port_example_levels(6) show ?thesis
    unfolding port_example_resolved by simp
qed

text \<open>
  C9. In a resolution, the short-circuit diagnostic is reported for pin \<open>i\<close> if and
  only if the pin is in Output mode and driven from outside; the resolution still
  returns, and for such a pin the external drive level is the resolved level.
\<close>

theorem resolve_drive_hazard:
  assumes "unat (ngpio s) \<le> 16"
  shows "\<exists>s' evs. stm32_gpio_update_state s = Some (s', evs) \<and>
           (\<forall>i. Short_circuit i \<in> set evs \<longleftrightarrow>
                  i < unat (ngpio s) \<and> pin_mode s i = Output \<and> external_drive_present s i) \<and>
           filter is_short_circuit evs =
             map Short_circuit
               (filter (\<lambda>i. pin_mode s i = Output \<and> external_drive_present s i)
                  [0..<unat (ngpio s)]) \<and>
           (\<forall>i < unat (ngpio s). pin_mode s i = Output \<and> external_drive_present s i \<longrightarrow>
              resolved_level s' i = external_drive_level s i)"
proof -
  let ?s' = "s\<lparr>idr := spec_idr s\<rparr>"
  have a: "\<forall>i. Short_circuit i \<in> set (spec_events s) \<longleftrightarrow>
                  i < unat (ngpio s) \<and> pin_mode s i = Output \<and> external_drive_present s i"
    by (simp add: short_in_spec_events spec_hazard_def)
  have b: "filter is_short_circuit (spec_events s) =
             map Short_circuit
               (filter (\<lambda>i. pin_mode s i = Output \<and> external_drive_present s i)
                  [0..<unat (ngpio s)])"
    by (simp add: filter_short_spec_events spec_hazard_def [abs_def])
  have c: "\<forall>i < unat (ngpio s). pin_mode s i = Output \<and> external_drive_present s i \<longrightarrow>
              resolved_level ?s' i = external_drive_level s i"
    using assms by (simp add: resolved_level_spec_idr spec_level_def)
  show ?thesis
    unfolding update_state_eq [OF assms] using a b c by blast
qed

text \<open>
  On the example port, only pin 3 is both an output and driven from outside: the
  diagnostic names it and not the driven input pin 0, and although ODR asks for a high
  level, the pin resolves to the low level driven from outside.
\<close>

theorem resolve_drive_hazard_witness:
  "unat (ngpio port_example) \<le> 16 \<and>
   (\<exists>s' evs. stm32_gpio_update_state port_example = Some (s', evs) \<and>
      Short_circuit 3 \<in> set evs \<and> Short_circuit 0 \<notin> set evs \<and>
      requested_output port_example 3 \<and> \<not> resolved_level s' 3)"
proof -
  let ?s' = "port_example\<lparr>idr := spec_idr port_example\<rparr>"
  have n: "unat (ngpio port_example) = 16" by (simp add: port_example_def)
  then have h: "unat (ngpio port_example) \<le> 16" by simp
  from resolve_drive_hazard [OF h] have
    iff: "\<And>i. Short_circuit i \<in> set (spec_events port_example) \<longleftrightarrow>
                  i < 16 \<and> pin_mode port_example i = Output \<and> external_drive_present port_example i"
    and lv: "\<And>i. i < 16 \<Longrightarrow> pin_mode port_example i = Output \<and> external_drive_present port_example i \<Longrightarrow>
              resolved_level ?s' i = external_drive_level port_example i"
    unfolding port_example_resolved n by simp_all
  have a: "Short_circuit 3 \<in> set (spec_events port_example)"
    unfolding iff by (simp add: port_example_levels)
  have b: "Short_circuit 0 \<notin> set (spec_events port_example)"
    unfolding iff by (simp add: port_example_levels)
  have c: "\<not> resolved_level ?s' 3"
    using lv [of 3] by (simp add: port_example_levels) (simp add: external_drive_level_def port_example_def)
  have d: "requested_output port_example 3"
    by (simp add: requested_output_def port_example_def)
  from h a b c d show ?thesis
    unfolding port_example_resolved by simp
qed

section \<open>Claims about the register interface\<close>

text \<open>
  C3. On an enabled port, a write of the 32-bit value \<open>v\<close> to BSRR leaves
  \<open>(odr & ~((v >> 16) & 0xFFFF)) | (v & 0xFFFF)\<close> in ODR; in particular, a pin whose bit
  is in both the set mask (the low half) and the reset mask (the high half) ends with its
  ODR bit set.
\<close>

theorem write_bsrr:
  fixes v :: u32
  assumes "enable s" and "unat (ngpio s) \<le> 16"
  shows "\<exists>s' evs. stm32_gpio_write s STM32_GPIO_REG_BSRR (ucast v) = Some (s', evs) \<and>
           odr s' = (odr s AND NOT (drop_bit 16 v AND 0xFFFF)) OR (v AND 0xFFFF) \<and>
           (\<forall>i < 16. bit v i \<and> bit v (i + 16) \<longrightarrow> bit (odr s') i)"
proof -
  let ?o = "(odr s AND NOT (drop_bit 16 v AND 0xFFFF)) OR (v AND 0xFFFF)"
  have sw: "stm32_gpio_write_switch s STM32_GPIO_REG_BSRR (ucast v) = (s\<lparr>odr := ?o\<rparr>, [])"
    unfolding stm32_gpio_write_switch_def Let_def bsrr_word by (simp add: reg_defs)
  have "stm32_gpio_write s STM32_GPIO_REG_BSRR (ucast v) =
          Some (s\<lparr>odr := ?o\<rparr>\<lparr>idr := spec_idr (s\<lparr>odr := ?o\<rparr>)\<rparr>, [] @ spec_events (s\<lparr>odr := ?o\<rparr>))"
    using assms by (intro write_enabled [OF _ _ sw]) simp_all
  moreover have "\<forall>i < 16. bit v i \<and> bit v (i + 16) \<longrightarrow> bit ?o i"
    by (simp add: bit_or_iff bit_and_ffff)
  ultimately show ?thesis by simp
qed

text \<open>
  On the example port ODR is 8. The value \<open>0x00090001\<close> resets the pins 0 and 3 and sets
  pin 0: pin 3 is cleared and pin 0, named in both masks, ends set.
\<close>

theorem write_bsrr_witness:
  "enable port_example \<and> unat (ngpio port_example) \<le> 16 \<and> odr port_example = 8 \<and>
   (\<exists>s' evs. stm32_gpio_write port_example STM32_GPIO_REG_BSRR (ucast (0x90001 :: u32)) = Some (s', evs) \<and>
      odr s' = 1)"
proof -
  have h: "enable port_example" "unat (ngpio port_example) \<le> 16"
    by (simp_all add: port_example_def)
  from write_bsrr [OF h, of "0x90001"] obtain s' evs where
    w: "stm32_gpio_write port_example STM32_GPIO_REG_BSRR (ucast (0x90001 :: u32)) = Some (s', evs)" and
    o: "odr s' = (odr port_example AND NOT (drop_bit 16 0x90001 AND 0xFFFF)) OR (0x90001 AND 0xFFFF)"
    by blast
  have "odr s' = 1" unfolding o by (simp add: port_example_def)
  with h w show ?thesis by (simp add: port_example_def)
qed

text \<open>
  C4, as the code has it. On an enabled port, a write of \<open>v\<close> to BRR: on a family that
  has the register (every family but STM32F4) ODR becomes \<open>odr & ~(v & 0xFFFF)\<close>, so
  exactly the requested bits are cleared, every other ODR bit and every other register
  but IDR is as before, and no invalid-offset diagnostic is reported; on STM32F4 the
  write is reported as a bad write offset and no register but IDR changes. IDR is
  recomputed by the resolution that ends every write, from the new ODR; on STM32F4 a
  port whose IDR was resolved is left as it was, IDR included.
\<close>

theorem write_brr:
  assumes "enable s" and "unat (ngpio s) \<le> 16"
  shows "\<exists>s' evs. stm32_gpio_write s STM32_GPIO_REG_BRR v = Some (s', evs) \<and>
           moder s' = moder s \<and> otyper s' = otyper s \<and> ospeedr s' = ospeedr s \<and>
           pupdr s' = pupdr s \<and> lckr s' = lckr s \<and> aflr s' = aflr s \<and> afhr s' = afhr s \<and>
           (if family s \<noteq> STM32_F4
            then odr s' = odr s AND NOT (ucast v AND 0xFFFF) \<and>
                 (\<forall>i. bit (odr s') i = (bit (odr s) i \<and> \<not> (i < 16 \<and> bit v i))) \<and>
                 s' = s\<lparr>odr := odr s', idr := idr s'\<rparr> \<and>
                 idr s' = spec_idr (s\<lparr>odr := odr s'\<rparr>) \<and>
                 Bad_write_offset STM32_GPIO_REG_BRR \<notin> set evs
            else odr s' = odr s \<and>
                 s' = s\<lparr>idr := idr s'\<rparr> \<and>
                 idr s' = spec_idr s \<and>
                 (idr s = spec_idr s \<longrightarrow> s' = s) \<and>
                 hd evs = Bad_write_offset STM32_GPIO_REG_BRR)"
proof (cases "family s \<noteq> STM32_F4")
  case True
  let ?o = "odr s AND NOT (ucast v AND 0xFFFF)"
  let ?s1 = "s\<lparr>odr := ?o\<rparr>"
  have sw: "stm32_gpio_write_switch s STM32_GPIO_REG_BRR v = (?s1, [])"
    using True unfolding stm32_gpio_write_switch_def brr_word by (simp add: reg_defs)
  have w: "stm32_gpio_write s STM32_GPIO_REG_BRR v = Some (?s1\<lparr>idr := spec_idr ?s1\<rparr>, [] @ spec_events ?s1)"
    using assms by (intro write_enabled [OF _ _ sw]) simp_all
  have b: "\<forall>i. bit ?o i = (bit (odr s) i \<and> \<not> (i < 16 \<and> bit v i))"
    by (simp only: brr_bits simp_thms)
  have n: "Bad_write_offset STM32_GPIO_REG_BRR \<notin> set (spec_events ?s1)"
    by (simp add: short_in_spec_events irq_in_spec_events spec_events_def spec_pin_events_def)
  show ?thesis
    unfolding w using True b n by simp
next
  case False
  have sw: "stm32_gpio_write_switch s STM32_GPIO_REG_BRR v = (s, [Bad_write_offset STM32_GPIO_REG_BRR])"
    using False by (simp add: stm32_gpio_write_switch_def reg_defs)
  have w: "stm32_gpio_write s STM32_GPIO_REG_BRR v =
           Some (s\<lparr>idr := spec_idr s\<rparr>, [Bad_write_offset STM32_GPIO_REG_BRR] @ spec_events s)"
    using assms by (intro write_enabled [OF _ _ sw]) simp_all
  show ?thesis
    unfolding w using False by (simp add: spec_idr_fixpoint_state)
qed

text \<open>
  The example port is of a family with BRR, and its ODR is 8: clearing the pins 0 and 3
  leaves ODR 0 and the other registers as they were.
\<close>

theorem write_brr_witness:
  "enable port_example \<and> unat (ngpio port_example) \<le> 16 \<and> family port_example \<noteq> STM32_F4 \<and>
   odr port_example = 8 \<and>
   (\<exists>s' evs. stm32_gpio_write port_example STM32_GPIO_REG_BRR 0x9 = Some (s', evs) \<and>
      odr s' = 0 \<and> moder s' = 0x40 \<and> pupdr s' = 0x4)"
proof -
  have h: "enable port_example" "unat (ngpio port_example) \<le> 16"
    by (simp_all add: port_example_def)
  have f: "family port_example \<noteq> STM32_F4" by (simp add: port_example_def enum_defs)
  from write_brr [OF h, of "0x9"] f obtain s' evs where
    w: "stm32_gpio_write port_example STM32_GPIO_REG_BRR 0x9 = Some (s', evs)" and
    o: "odr s' = odr port_example AND NOT (ucast (0x9 :: u64) AND 0xFFFF)" and
    m: "moder s' = moder port_example" "pupdr s' = pupdr port_example"
    by auto
  have "odr s' = 0" unfolding o by (simp add: port_example_def)
  with h f w m show ?thesis by (simp add: port_example_def)
qed

text \<open>
  With every other register unchanged, IDR included, the claim fails: on the port whose
  pin 0 is an output driving a high level, clearing bit 0 of ODR through BRR takes
  bit 0 of IDR from 1 to 0.
\<close>

theorem write_brr_counterexample:
  "enable port_output_high \<and> family port_output_high \<noteq> STM32_F4 \<and>
   stm32_gpio_update_state port_output_high = Some (port_output_high, [Pulse_state_irq]) \<and>
   stm32_gpio_write port_output_high STM32_GPIO_REG_BRR 1 =
     Some (port_output_high\<lparr>odr := 0, idr := 0\<rparr>, [Pulse_state_irq]) \<and>
   idr port_output_high = 1 \<and> idr (port_output_high\<lparr>odr := 0, idr := 0\<rparr>) = 0"
proof -
  have e: "port_output_high\<lparr>odr := 1\<rparr> = port_output_high"
    "port_output_high\<lparr>idr := 1\<rparr> = port_output_high"
    by (simp_all add: port_output_high_def)
  have n: "unat (ngpio port_output_high) \<le> 16" "enable port_output_high"
    "family port_output_high \<noteq> STM32_F4"
    by (simp_all add: port_output_high_def enum_defs)
  have u: "stm32_gpio_update_state port_output_high = Some (port_output_high, [Pulse_state_irq])"
    using update_state_eq [OF n(1)] port_output_high_idr(1) port_output_high_events [of 1]
    unfolding e by (simp add: e)
  have sw: "stm32_gpio_write_switch port_output_high STM32_GPIO_REG_BRR 1 =
              (port_output_high\<lparr>odr := 0\<rparr>, [])"
    using n(3) by (simp add: stm32_gpio_write_switch_def reg_defs) (simp add: port_output_high_def)
  have "stm32_gpio_write port_output_high STM32_GPIO_REG_BRR 1 =
          Some (port_output_high\<lparr>odr := 0\<rparr>\<lparr>idr := spec_idr (port_output_high\<lparr>odr := 0\<rparr>)\<rparr>,
                [] @ spec_events (port_output_high\<lparr>odr := 0\<rparr>))"
    using n by (intro write_enabled [OF _ _ sw]) simp_all
  then have w: "stm32_gpio_write port_output_high STM32_GPIO_REG_BRR 1 =
     Some (port_output_high\<lparr>odr := 0, idr := 0\<rparr>, [Pulse_state_irq])"
    unfolding port_output_high_idr port_output_high_events by simp
  show ?thesis using n u w by (simp add: port_output_high_def)
qed

text \<open>
  C6. Every write to an enabled port, whatever the offset and the value (also an invalid
  offset, the read-only IDR, or a value that changes nothing), is the register store
  followed by one resolution: the events of the store hold no notification, and the
  whole write sends the port-level pulse exactly once, as its last event.
\<close>

theorem write_resolves_once:
  assumes "enable s" and "unat (ngpio s) \<le> 16"
  shows "\<exists>s1 ev1 s' ev2.
           stm32_gpio_write_switch s offset v = (s1, ev1) \<and>
           stm32_gpio_update_state s1 = Some (s', ev2) \<and>
           stm32_gpio_write s offset v = Some (s', ev1 @ ev2) \<and>
           filter is_notification ev1 = [] \<and>
           count_list (ev1 @ ev2) Pulse_state_irq = 1 \<and>
           last (ev1 @ ev2) = Pulse_state_irq"
proof -
  obtain s1 ev1 where sw: "stm32_gpio_write_switch s offset v = (s1, ev1)"
    by (cases "stm32_gpio_write_switch s offset v") 
  have n: "ngpio s1 = ngpio s" using sw by (rule write_switch_ngpio)
  then have u: "stm32_gpio_update_state s1 = Some (s1\<lparr>idr := spec_idr s1\<rparr>, spec_events s1)"
    using assms by (simp add: update_state_eq)
  have w: "stm32_gpio_write s offset v = Some (s1\<lparr>idr := spec_idr s1\<rparr>, ev1 @ spec_events s1)"
    using assms sw n by (rule write_enabled)
  have f: "filter is_notification ev1 = []"
    using sw by (rule notification_free_switch)
  have c: "count_list (ev1 @ spec_events s1) Pulse_state_irq = 1"
    by (simp add: count_pulse_no_notification [OF f] count_pulse_spec_events)
  have l: "last (ev1 @ spec_events s1) = Pulse_state_irq"
    by (simp add: spec_events_def)
  from sw u w f c l show ?thesis by blast
qed

text \<open>
  A write to the read-only IDR of the freshly reset port, which stores nothing and
  changes no level, still sends the pulse once, last.
\<close>

theorem write_resolves_once_witness:
  "enable port_in_reset \<and> unat (ngpio port_in_reset) \<le> 16 \<and>
   (\<exists>s' evs. stm32_gpio_write port_in_reset STM32_GPIO_REG_IDR 0xFFFF = Some (s', evs) \<and>
      count_list evs Pulse_state_irq = 1 \<and> last evs = Pulse_state_irq)"
proof -
  have h: "enable port_in_reset" "unat (ngpio port_in_reset) \<le> 16"
    by (simp_all add: port_in_reset_def)
  from write_resolves_once [OF h, of STM32_GPIO_REG_IDR "0xFFFF"] h show ?thesis
    by auto
qed

text \<open>
  C7. While the port is disabled, every read returns 0 with the diagnostic, whatever
  the offset, and every write leaves the whole state as it is and sends nothing but
  the diagnostic. When an enabled port is disabled and enabled again, the registers are
  the ones from before: the state is the resolved state from before, and every read
  but that of IDR returns what it returned before (so does the read of IDR when IDR was
  resolved to begin with).
\<close>

theorem disabled_access:
  assumes "\<not> enable s" and "enable s0" and "unat (ngpio s0) \<le> 16" and "val \<noteq> 0"
  shows "stm32_gpio_read s offset = (0, [Disabled_access]) \<and>
         stm32_gpio_write s offset v = Some (s, [Disabled_access]) \<and>
         (\<exists>s1 ev1 s2 ev2.
            stm32_gpio_irq_enable s0 line1 0 = Some (s1, ev1) \<and> \<not> enable s1 \<and>
            stm32_gpio_irq_enable s1 line2 val = Some (s2, ev2) \<and> enable s2 \<and>
            s2 = s0\<lparr>idr := spec_idr s0\<rparr> \<and>
            (idr s0 = spec_idr s0 \<longrightarrow> s2 = s0) \<and>
            (offset \<noteq> STM32_GPIO_REG_IDR \<longrightarrow>
               stm32_gpio_read s2 offset = stm32_gpio_read s0 offset))"
proof -
  let ?s1 = "s0\<lparr>enable := False, idr := spec_idr s0\<rparr>"
  let ?s2 = "s0\<lparr>idr := spec_idr s0\<rparr>"
  have r: "stm32_gpio_read s offset = (0, [Disabled_access])"
    using assms(1) by (simp add: stm32_gpio_read_def)
  have w: "stm32_gpio_write s offset v = Some (s, [Disabled_access])"
    using assms(1) by (simp add: stm32_gpio_write_def)
  have d: "stm32_gpio_irq_enable s0 line1 0 = Some (?s1, spec_events s0)"
    using assms by (simp add: stm32_gpio_irq_enable_def update_state_eq spec_idr_enable spec_events_enable)
  have e0: "s0\<lparr>enable := True\<rparr> = s0" using assms(2) by (cases s0) simp
  have "stm32_gpio_irq_enable ?s1 line2 val =
          Some (?s1\<lparr>enable := True\<rparr>\<lparr>idr := spec_idr (?s1\<lparr>enable := True\<rparr>)\<rparr>, spec_events (?s1\<lparr>enable := True\<rparr>))"
    using assms by (simp add: stm32_gpio_irq_enable_def update_state_eq)
  moreover have "?s1\<lparr>enable := True\<rparr> = ?s2" using assms(2) by (cases s0) simp
  ultimately have e: "stm32_gpio_irq_enable ?s1 line2 val = Some (?s2, spec_events ?s2)"
    by (simp add: spec_idr_idem)
  have i: "idr s0 = spec_idr s0 \<longrightarrow> ?s2 = s0"
    by (simp add: spec_idr_fixpoint_state)
  have rd: "offset \<noteq> STM32_GPIO_REG_IDR \<longrightarrow> stm32_gpio_read ?s2 offset = stm32_gpio_read s0 offset"
    using assms(2) by (simp add: read_disable_cycle)
  from r w d e i rd assms(2) show ?thesis
    by (intro conjI exI [of _ ?s1] exI [of _ ?s2] exI [of _ "spec_events s0"] exI [of _ "spec_events ?s2"]) simp_all
qed

text \<open>
  The example port, disabled: ODR reads as 0 and a write to it is dropped. Disabled and
  enabled again, ODR reads 8 as before.
\<close>

theorem disabled_access_witness:
  "\<not> enable (port_example\<lparr>enable := False\<rparr>) \<and> enable port_example \<and>
   unat (ngpio port_example) \<le> 16 \<and> (1::int) \<noteq> 0 \<and>
   stm32_gpio_read (port_example\<lparr>enable := False\<rparr>) STM32_GPIO_REG_ODR = (0, [Disabled_access]) \<and>
   stm32_gpio_write (port_example\<lparr>enable := False\<rparr>) STM32_GPIO_REG_ODR 0 =
     Some (port_example\<lparr>enable := False\<rparr>, [Disabled_access]) \<and>
   (\<exists>s1 ev1 s2 ev2.
      stm32_gpio_irq_enable port_example 0 0 = Some (s1, ev1) \<and> \<not> enable s1 \<and>
      stm32_gpio_irq_enable s1 0 1 = Some (s2, ev2) \<and> enable s2 \<and>
      stm32_gpio_read s2 STM32_GPIO_REG_ODR = (8, []))"
proof -
  have h: "\<not> enable (port_example\<lparr>enable := False\<rparr>)" "enable port_example"
    "unat (ngpio port_example) \<le> 16" "(1::int) \<noteq> 0"
    by (simp_all add: port_example_def)
  have o: "STM32_GPIO_REG_ODR \<noteq> STM32_GPIO_REG_IDR" by (simp add: reg_defs)
  have r: "stm32_gpio_read port_example STM32_GPIO_REG_ODR = (8, [])"
    by (simp add: stm32_gpio_read_def port_example_def reg_defs)
  from disabled_access [OF h, of STM32_GPIO_REG_ODR 0 0 0] h o r show ?thesis
    by auto
qed

section \<open>Claims about the reset line\<close>

text \<open>
  C8. On the rising edge of the reset line, MODER, OTYPER, OSPEEDR, PUPDR, ODR, LCKR,
  AFRL and AFRH are set to the defaults of the family and port (all 0, but for the
  ports A and B of the STM32F4), and a resolution runs on them. On the falling edge a
  resolution runs and none of these registers changes; IDR, the output of the
  resolution, stays too when it was resolved before.
\<close>

theorem reset_edges:
  assumes "unat (ngpio s) \<le> 16"
  shows "(\<not> reset s \<and> val \<noteq> 0 \<longrightarrow>
            (\<exists>s' evs. stm32_gpio_irq_reset s line val = Some (s', evs) \<and> reset s' \<and>
               moder s' = (if family s = STM32_F4 \<and> port s = STM32_GPIO_PORT_A then 0xA8000000
                           else if family s = STM32_F4 \<and> port s = STM32_GPIO_PORT_B then 0x00000280
                           else 0) \<and>
               otyper s' = 0 \<and>
               ospeedr s' = (if family s = STM32_F4 \<and> port s = STM32_GPIO_PORT_B then 0x000000C0 else 0) \<and>
               pupdr s' = (if family s = STM32_F4 \<and> port s = STM32_GPIO_PORT_A then 0x64000000
                           else if family s = STM32_F4 \<and> port s = STM32_GPIO_PORT_B then 0x00000100
                           else 0) \<and>
               odr s' = 0 \<and> lckr s' = 0 \<and> aflr s' = 0 \<and> afhr s' = 0 \<and>
               stm32_gpio_update_state (s'\<lparr>idr := idr s\<rparr>) = Some (s', evs) \<and>
               count_list evs Pulse_state_irq = 1)) \<and>
         (reset s \<and> val = 0 \<longrightarrow>
            (\<exists>s' evs. stm32_gpio_irq_reset s line val = Some (s', evs) \<and> \<not> reset s' \<and>
               moder s' = moder s \<and> otyper s' = otyper s \<and> ospeedr s' = ospeedr s \<and>
               pupdr s' = pupdr s \<and> odr s' = odr s \<and> lckr s' = lckr s \<and>
               aflr s' = aflr s \<and> afhr s' = afhr s \<and>
               s' = s\<lparr>reset := False, idr := idr s'\<rparr> \<and>
               (idr s = spec_idr s \<longrightarrow> idr s' = idr s) \<and>
               stm32_gpio_update_state (s\<lparr>reset := False\<rparr>) = Some (s', evs) \<and>
               count_list evs Pulse_state_irq = 1))"
proof (intro conjI impI)
  assume a: "\<not> reset s \<and> val \<noteq> 0"
  from irq_reset_rising [of s val line] a assms obtain d where
    r: "stm32_gpio_irq_reset s line val = Some (d\<lparr>idr := spec_idr d\<rparr>, spec_events d)" and
    d: "d = s\<lparr>reset := True,
                   moder := (if family s = STM32_F4 \<and> port s = STM32_GPIO_PORT_A then 0xA8000000
                             else if family s = STM32_F4 \<and> port s = STM32_GPIO_PORT_B then 0x00000280
                             else 0),
                   otyper := 0,
                   ospeedr := (if family s = STM32_F4 \<and> port s = STM32_GPIO_PORT_B then 0x000000C0 else 0),
                   pupdr := (if family s = STM32_F4 \<and> port s = STM32_GPIO_PORT_A then 0x64000000
                             else if family s = STM32_F4 \<and> port s = STM32_GPIO_PORT_B then 0x00000100
                             else 0),
                   odr := 0, lckr := 0, aflr := 0, afhr := 0\<rparr>"
    by blast
  have i: "idr d = idr s" and n: "unat (ngpio d) \<le> 16" using d assms by simp_all
  have di: "d\<lparr>idr := spec_idr d, idr := idr s\<rparr> = d" using i by (cases d) simp
  have u: "stm32_gpio_update_state (d\<lparr>idr := spec_idr d\<rparr>\<lparr>idr := idr s\<rparr>) = Some (d\<lparr>idr := spec_idr d\<rparr>, spec_events d)"
    using n by (simp add: di update_state_eq)
  show "\<exists>s' evs. stm32_gpio_irq_reset s line val = Some (s', evs) \<and> reset s' \<and>
               moder s' = (if family s = STM32_F4 \<and> port s = STM32_GPIO_PORT_A then 0xA8000000
                           else if family s = STM32_F4 \<and> port s = STM32_GPIO_PORT_B then 0x00000280
                           else 0) \<and>
               otyper s' = 0 \<and>
               ospeedr s' = (if family s = STM32_F4 \<and> port s = STM32_GPIO_PORT_B then 0x000000C0 else 0) \<and>
               pupdr s' = (if family s = STM32_F4 \<and> port s = STM32_GPIO_PORT_A then 0x64000000
                           else if family s = STM32_F4 \<and> port s = STM32_GPIO_PORT_B then 0x00000100
                           else 0) \<and>
               odr s' = 0 \<and> lckr s' = 0 \<and> aflr s' = 0 \<and> afhr s' = 0 \<and>
               stm32_gpio_update_state (s'\<lparr>idr := idr s\<rparr>) = Some (s', evs) \<and>
               count_list evs Pulse_state_irq = 1"
    apply (rule exI [of _ "d\<lparr>idr := spec_idr d\<rparr>"])
    apply (rule exI [of _ "spec_events d"])
    apply (simp only: r u count_pulse_spec_events)
    apply (simp add: d)
    done
next
  assume a: "reset s \<and> val = 0"
  then have r: "stm32_gpio_irq_reset s line val = Some (s\<lparr>reset := False, idr := spec_idr s\<rparr>, spec_events s)"
    using assms by (simp add: irq_reset_falling)
  have u: "stm32_gpio_update_state (s\<lparr>reset := False\<rparr>) = Some (s\<lparr>reset := False, idr := spec_idr s\<rparr>, spec_events s)"
    using assms by (simp add: update_state_eq spec_idr_reset spec_events_reset)
  show "\<exists>s' evs. stm32_gpio_irq_reset s line val = Some (s', evs) \<and> \<not> reset s' \<and>
               moder s' = moder s \<and> otyper s' = otyper s \<and> ospeedr s' = ospeedr s \<and>
               pupdr s' = pupdr s \<and> odr s' = odr s \<and> lckr s' = lckr s \<and>
               aflr s' = aflr s \<and> afhr s' = afhr s \<and>
               s' = s\<lparr>reset := False, idr := idr s'\<rparr> \<and>
               (idr s = spec_idr s \<longrightarrow> idr s' = idr s) \<and>
               stm32_gpio_update_state (s\<lparr>reset := False\<rparr>) = Some (s', evs) \<and>
               count_list evs Pulse_state_irq = 1"
    unfolding r u by (simp add: count_pulse_spec_events)
qed

text \<open>
  The rising edge on port A of an STM32F4, and the falling edge on the port that is
  held in reset.
\<close>

theorem reset_edges_witness:
  "unat (ngpio (port_example\<lparr>family := STM32_F4\<rparr>)) \<le> 16 \<and>
   \<not> reset (port_example\<lparr>family := STM32_F4\<rparr>) \<and>
   (\<exists>s' evs. stm32_gpio_irq_reset (port_example\<lparr>family := STM32_F4\<rparr>) 0 1 = Some (s', evs) \<and>
      reset s' \<and> moder s' = 0xA8000000 \<and> ospeedr s' = 0 \<and> pupdr s' = 0x64000000 \<and> odr s' = 0) \<and>
   unat (ngpio port_in_reset) \<le> 16 \<and> reset port_in_reset \<and>
   (\<exists>s' evs. stm32_gpio_irq_reset port_in_reset 0 0 = Some (s', evs) \<and> \<not> reset s' \<and>
      s' = port_in_reset\<lparr>reset := False, idr := idr s'\<rparr> \<and>
      count_list evs Pulse_state_irq = 1)"
proof -
  let ?p = "port_example\<lparr>family := STM32_F4\<rparr>"
  have h: "unat (ngpio ?p) \<le> 16" "\<not> reset ?p" "family ?p = STM32_F4"
    "port ?p = STM32_GPIO_PORT_A" "STM32_GPIO_PORT_A \<noteq> STM32_GPIO_PORT_B"
    by (simp_all add: port_example_def enum_defs)
  have k: "unat (ngpio port_in_reset) \<le> 16" "reset port_in_reset"
    by (simp_all add: port_in_reset_def)
  have a: "\<exists>s' evs. stm32_gpio_irq_reset ?p 0 1 = Some (s', evs) \<and>
      reset s' \<and> moder s' = 0xA8000000 \<and> ospeedr s' = 0 \<and> pupdr s' = 0x64000000 \<and> odr s' = 0"
    using reset_edges [OF h(1), of 1 0] h(2-5) by auto
  have b: "\<exists>s' evs. stm32_gpio_irq_reset port_in_reset 0 0 = Some (s', evs) \<and> \<not> reset s' \<and>
      s' = port_in_reset\<lparr>reset := False, idr := idr s'\<rparr> \<and>
      count_list evs Pulse_state_irq = 1"
    using reset_edges [OF k(1), of 0 0] k(2) by auto
  from h k a b show ?thesis by blast
qed

text \<open>
  C2, as the code has it. The reset line acts on its edges only; \<^verbatim>\<open>stm32_gpio_write\<close>
  never looks at the \<^verbatim>\<open>reset\<close> flag. A write to an enabled port that is held in reset
  takes effect exactly as the same write with the flag cleared does: it stores the value
  in the addressed register, resolves, sends the same events, and leaves the port held
  in reset.
\<close>

theorem write_while_held_in_reset:
  assumes "reset s" and "enable s" and "unat (ngpio s) \<le> 16"
  shows "\<exists>s' evs. stm32_gpio_write s offset v = Some (s', evs) \<and> reset s' \<and>
           stm32_gpio_write (s\<lparr>reset := False\<rparr>) offset v = Some (s'\<lparr>reset := False\<rparr>, evs) \<and>
           (offset = STM32_GPIO_REG_MODER \<longrightarrow> moder s' = ucast v) \<and>
           (offset = STM32_GPIO_REG_OTYPER \<longrightarrow> otyper s' = ucast v) \<and>
           (offset = STM32_GPIO_REG_OSPEEDR \<longrightarrow> ospeedr s' = ucast v) \<and>
           (offset = STM32_GPIO_REG_PUPDR \<longrightarrow> pupdr s' = ucast v) \<and>
           (offset = STM32_GPIO_REG_ODR \<longrightarrow> odr s' = ucast v) \<and>
           (offset = STM32_GPIO_REG_LCKR \<longrightarrow> lckr s' = ucast v) \<and>
           (offset = STM32_GPIO_REG_AFRL \<longrightarrow> aflr s' = ucast v) \<and>
           (offset = STM32_GPIO_REG_AFRH \<longrightarrow> afhr s' = ucast v)"
proof -
  obtain s1 ev1 where sw: "stm32_gpio_write_switch s offset v = (s1, ev1)"
    by (cases "stm32_gpio_write_switch s offset v")
  have n: "ngpio s1 = ngpio s" using sw by (rule write_switch_ngpio)
  have w: "stm32_gpio_write s offset v = Some (s1\<lparr>idr := spec_idr s1\<rparr>, ev1 @ spec_events s1)"
    using assms(2,3) sw n by (rule write_enabled)
  have sw': "stm32_gpio_write_switch (s\<lparr>reset := False\<rparr>) offset v = (s1\<lparr>reset := False\<rparr>, ev1)"
    by (simp add: write_switch_reset sw)
  have "stm32_gpio_write (s\<lparr>reset := False\<rparr>) offset v =
          Some (s1\<lparr>reset := False\<rparr>\<lparr>idr := spec_idr (s1\<lparr>reset := False\<rparr>)\<rparr>,
                ev1 @ spec_events (s1\<lparr>reset := False\<rparr>))"
    using assms(2,3) n by (intro write_enabled [OF _ _ sw']) simp_all
  moreover have "s1\<lparr>reset := False\<rparr>\<lparr>idr := spec_idr s1\<rparr> = s1\<lparr>idr := spec_idr s1\<rparr>\<lparr>reset := False\<rparr>"
    by (cases s1) simp
  ultimately have w': "stm32_gpio_write (s\<lparr>reset := False\<rparr>) offset v =
          Some (s1\<lparr>idr := spec_idr s1\<rparr>\<lparr>reset := False\<rparr>, ev1 @ spec_events s1)"
    by (simp add: spec_idr_reset spec_events_reset)
  have r: "reset (s1\<lparr>idr := spec_idr s1\<rparr>)"
    using write_switch_reset_flag [OF sw] assms(1) by simp
  from write_switch_stores [OF sw] w w' r show ?thesis by simp
qed

text \<open>
  On the port that the rising edge of the reset line has just left with all registers
  0, a write of 4 to PUPDR (pull-up on pin 1) is stored.
\<close>

theorem write_while_held_in_reset_witness:
  "reset port_in_reset \<and> enable port_in_reset \<and> unat (ngpio port_in_reset) \<le> 16 \<and>
   (\<exists>s' evs. stm32_gpio_write port_in_reset STM32_GPIO_REG_PUPDR 4 = Some (s', evs) \<and> reset s' \<and>
      stm32_gpio_write (port_in_reset\<lparr>reset := False\<rparr>) STM32_GPIO_REG_PUPDR 4 = Some (s'\<lparr>reset := False\<rparr>, evs) \<and>
      pupdr s' = 4)"
proof -
  have h: "reset port_in_reset" "enable port_in_reset" "unat (ngpio port_in_reset) \<le> 16"
    by (simp_all add: port_in_reset_def)
  from write_while_held_in_reset [OF h, of STM32_GPIO_REG_PUPDR 4] h show ?thesis
    by auto
qed

text \<open>
  The claim as stated fails on that port: it is enabled and held in reset, MODER has its
  reset default 0, and a write of 1 to MODER leaves 1 in MODER.
\<close>

theorem write_while_held_in_reset_counterexample:
  "stm32_gpio_irq_reset (port_in_reset\<lparr>reset := False\<rparr>) 0 1 = Some (port_in_reset, [Pulse_state_irq]) \<and>
   reset port_in_reset \<and> enable port_in_reset \<and> moder port_in_reset = 0 \<and>
   stm32_gpio_write port_in_reset STM32_GPIO_REG_MODER 1 =
     Some (port_in_reset\<lparr>moder := 1\<rparr>, [Pulse_state_irq]) \<and>
   moder (port_in_reset\<lparr>moder := 1\<rparr>) = 1"
proof -
  have e: "port_in_reset\<lparr>moder := 0, reset := True\<rparr> = port_in_reset"
      "port_in_reset\<lparr>moder := 1, reset := True\<rparr> = port_in_reset\<lparr>moder := 1\<rparr>"
    by (simp_all add: port_in_reset_def)
  have i: "spec_idr port_in_reset = 0" "spec_events port_in_reset = [Pulse_state_irq]"
     "spec_idr (port_in_reset\<lparr>moder := 1\<rparr>) = 0" "spec_events (port_in_reset\<lparr>moder := 1\<rparr>) = [Pulse_state_irq]"
    using port_in_reset_resolved [where m = 0 and r = True]
      port_in_reset_events [where m = 0 and r = True]
      port_in_reset_resolved [where m = 1 and r = True]
      port_in_reset_events [where m = 1 and r = True]
    unfolding e by simp_all
  have n: "unat (ngpio port_in_reset) \<le> 16" by (simp add: port_in_reset_def)
  have a: "stm32_gpio_irq_reset (port_in_reset\<lparr>reset := False\<rparr>) 0 1 = Some (port_in_reset, [Pulse_state_irq])"
    using i(1,2)
    by (simp add: stm32_gpio_irq_reset_def stm32_gpio_reset_def Let_def update_state_eq enum_defs port_in_reset_def)
  have sw: "stm32_gpio_write_switch port_in_reset STM32_GPIO_REG_MODER 1 = (port_in_reset\<lparr>moder := 1\<rparr>, [])"
    by (simp add: stm32_gpio_write_switch_def)
  have "stm32_gpio_write port_in_reset STM32_GPIO_REG_MODER 1 =
          Some (port_in_reset\<lparr>moder := 1\<rparr>\<lparr>idr := spec_idr (port_in_reset\<lparr>moder := 1\<rparr>)\<rparr>,
                [] @ spec_events (port_in_reset\<lparr>moder := 1\<rparr>))"
    by (intro write_enabled [OF _ _ sw]) (simp_all add: port_in_reset_def)
  then have b: "stm32_gpio_write port_in_reset STM32_GPIO_REG_MODER 1 =
     Some (port_in_reset\<lparr>moder := 1\<rparr>, [Pulse_state_irq])"
    unfolding i by (simp add: port_in_reset_def)
  show ?thesis using a b by (simp add: port_in_reset_def)
qed

section \<open>Claims about the control lines of a disabled port\<close>

text \<open>
  C10. Only register reads and writes are gated by the enable flag. On a disabled port
  an update of the external drive of a pin below the pin count still records the
  presence bit (\<open>val \<ge> 0\<close>) and, when the pin is driven, the level bit (\<open>val \<noteq> 0\<close>)
  of that pin and of no other, still runs a resolution of all pins and still sends the
  pulse once; the enable line enables the port and resolves; and an edge of the reset
  line takes effect: the rising edge forces MODER, OTYPER, OSPEEDR, PUPDR, ODR, LCKR,
  AFRL and AFRH to the defaults of the family and port, the falling edge leaves them as
  they are, and either resolves and sends the pulse once, exactly as on the enabled
  port.
\<close>

theorem unpowered_control_lines:
  assumes "\<not> enable s" and "unat (ngpio s) \<le> 16"
  shows "(0 \<le> line \<and> line < uint (ngpio s) \<longrightarrow>
            (\<exists>s' evs. stm32_gpio_irq_set s line val = Some (s', evs) \<and>
               external_drive_present s' (nat line) = (val \<ge> 0) \<and>
               (val \<ge> 0 \<longrightarrow> external_drive_level s' (nat line) = (val \<noteq> 0)) \<and>
               (\<forall>j. j \<noteq> nat line \<longrightarrow> external_drive_present s' j = external_drive_present s j) \<and>
               (\<forall>j. j \<noteq> nat line \<or> val < 0 \<longrightarrow> external_drive_level s' j = external_drive_level s j) \<and>
               \<not> enable s' \<and>
               stm32_gpio_update_state (s'\<lparr>idr := idr s\<rparr>) = Some (s', evs) \<and>
               (\<forall>i < unat (ngpio s). resolved_level s' i = spec_level s' i) \<and>
               count_list evs Pulse_state_irq = 1)) \<and>
         (val \<noteq> 0 \<longrightarrow>
            (\<exists>s' evs. stm32_gpio_irq_enable s line val = Some (s', evs) \<and> enable s' \<and>
               stm32_gpio_update_state (s\<lparr>enable := True\<rparr>) = Some (s', evs) \<and>
               (\<forall>i < unat (ngpio s). resolved_level s' i = spec_level s' i) \<and>
               count_list evs Pulse_state_irq = 1)) \<and>
         (reset s \<noteq> (val \<noteq> 0) \<longrightarrow>
            (\<exists>s' evs. stm32_gpio_irq_reset s line val = Some (s', evs) \<and>
               reset s' = (val \<noteq> 0) \<and> \<not> enable s' \<and>
               moder s' = (if val \<noteq> 0
                           then (if family s = STM32_F4 \<and> port s = STM32_GPIO_PORT_A then 0xA8000000
                                 else if family s = STM32_F4 \<and> port s = STM32_GPIO_PORT_B then 0x00000280
                                 else 0)
                           else moder s) \<and>
               otyper s' = (if val \<noteq> 0 then 0 else otyper s) \<and>
               ospeedr s' = (if val \<noteq> 0
                             then (if family s = STM32_F4 \<and> port s = STM32_GPIO_PORT_B then 0x000000C0 else 0)
                             else ospeedr s) \<and>
               pupdr s' = (if val \<noteq> 0
                           then (if family s = STM32_F4 \<and> port s = STM32_GPIO_PORT_A then 0x64000000
                                 else if family s = STM32_F4 \<and> port s = STM32_GPIO_PORT_B then 0x00000100
                                 else 0)
                           else pupdr s) \<and>
               odr s' = (if val \<noteq> 0 then 0 else odr s) \<and>
               lckr s' = (if val \<noteq> 0 then 0 else lckr s) \<and>
               aflr s' = (if val \<noteq> 0 then 0 else aflr s) \<and>
               afhr s' = (if val \<noteq> 0 then 0 else afhr s) \<and>
               in_val s' = in_val s \<and> in_mask s' = in_mask s \<and>
               stm32_gpio_irq_reset (s\<lparr>enable := True\<rparr>) line val = Some (s'\<lparr>enable := True\<rparr>, evs) \<and>
               stm32_gpio_update_state (s'\<lparr>idr := idr s\<rparr>) = Some (s', evs) \<and>
               (\<forall>i < unat (ngpio s). resolved_level s' i = spec_level s' i) \<and>
               count_list evs Pulse_state_irq = 1))"
proof (intro conjI impI)
  assume a: "0 \<le> line \<and> line < uint (ngpio s)"
  from irq_set_eq [of line s val] a assms(2) obtain d where
    r: "stm32_gpio_irq_set s line val = Some (d\<lparr>idr := spec_idr d\<rparr>, spec_events d)" and
    f: "idr d = idr s" "enable d = enable s" "ngpio d = ngpio s" and
    bm: "\<And>j. bit (in_mask d) j = (if j = nat line then val \<ge> 0 else bit (in_mask s) j)" and
    bw: "\<And>j. bit (in_val d) j = (if j = nat line \<and> val \<ge> 0 then val \<noteq> 0 else bit (in_val s) j)"
    by blast
  let ?s' = "d\<lparr>idr := spec_idr d\<rparr>"
  have n: "unat (ngpio d) \<le> 16" using f assms(2) by simp
  have di: "?s'\<lparr>idr := idr s\<rparr> = d" using f(1) by (cases d) simp
  have u: "stm32_gpio_update_state (?s'\<lparr>idr := idr s\<rparr>) = Some (?s', spec_events d)"
    unfolding di using n by (rule update_state_eq)
  have lv: "\<forall>i < unat (ngpio s). resolved_level ?s' i = spec_level ?s' i"
    using n f(3) by (simp add: resolved_level_spec_idr spec_level_idr)
  show "\<exists>s' evs. stm32_gpio_irq_set s line val = Some (s', evs) \<and>
               external_drive_present s' (nat line) = (val \<ge> 0) \<and>
               (val \<ge> 0 \<longrightarrow> external_drive_level s' (nat line) = (val \<noteq> 0)) \<and>
               (\<forall>j. j \<noteq> nat line \<longrightarrow> external_drive_present s' j = external_drive_present s j) \<and>
               (\<forall>j. j \<noteq> nat line \<or> val < 0 \<longrightarrow> external_drive_level s' j = external_drive_level s j) \<and>
               \<not> enable s' \<and>
               stm32_gpio_update_state (s'\<lparr>idr := idr s\<rparr>) = Some (s', evs) \<and>
               (\<forall>i < unat (ngpio s). resolved_level s' i = spec_level s' i) \<and>
               count_list evs Pulse_state_irq = 1"
    apply (rule exI [of _ ?s'])
    apply (rule exI [of _ "spec_events d"])
    apply (intro conjI)
            apply (rule r)
           apply (simp add: external_drive_present_def bm)
          apply (simp add: external_drive_level_def bw)
         apply (simp add: external_drive_present_def bm)
        apply (auto simp: external_drive_level_def bw)[1]
       apply (simp add: f assms(1))
      apply (rule u)
     apply (rule lv)
    apply (rule count_pulse_spec_events)
    done
next
  assume a: "val \<noteq> 0"
  let ?d = "s\<lparr>enable := True\<rparr>"
  have r: "stm32_gpio_irq_enable s line val = Some (?d\<lparr>idr := spec_idr ?d\<rparr>, spec_events ?d)"
    using a assms by (simp add: stm32_gpio_irq_enable_def update_state_eq)
  have u: "stm32_gpio_update_state ?d = Some (?d\<lparr>idr := spec_idr ?d\<rparr>, spec_events ?d)"
    using assms(2) by (simp add: update_state_eq)
  have lv: "\<forall>i < unat (ngpio s). resolved_level (?d\<lparr>idr := spec_idr ?d\<rparr>) i = spec_level (?d\<lparr>idr := spec_idr ?d\<rparr>) i"
    using assms(2) resolved_level_spec_idr [of _ ?d] by (simp add: spec_level_idr)
  show "\<exists>s' evs. stm32_gpio_irq_enable s line val = Some (s', evs) \<and> enable s' \<and>
               stm32_gpio_update_state (s\<lparr>enable := True\<rparr>) = Some (s', evs) \<and>
               (\<forall>i < unat (ngpio s). resolved_level s' i = spec_level s' i) \<and>
               count_list evs Pulse_state_irq = 1"
    unfolding r u using lv by (simp add: count_pulse_spec_events)
next
  assume a: "reset s \<noteq> (val \<noteq> 0)"
  show "\<exists>s' evs. stm32_gpio_irq_reset s line val = Some (s', evs) \<and>
               reset s' = (val \<noteq> 0) \<and> \<not> enable s' \<and>
               moder s' = (if val \<noteq> 0
                           then (if family s = STM32_F4 \<and> port s = STM32_GPIO_PORT_A then 0xA8000000
                                 else if family s = STM32_F4 \<and> port s = STM32_GPIO_PORT_B then 0x00000280
                                 else 0)
                           else moder s) \<and>
               otyper s' = (if val \<noteq> 0 then 0 else otyper s) \<and>
               ospeedr s' = (if val \<noteq> 0
                             then (if family s = STM32_F4 \<and> port s = STM32_GPIO_PORT_B then 0x000000C0 else 0)
                             else ospeedr s) \<and>
               pupdr s' = (if val \<noteq> 0
                           then (if family s = STM32_F4 \<and> port s = STM32_GPIO_PORT_A then 0x64000000
                                 else if family s = STM32_F4 \<and> port s = STM32_GPIO_PORT_B then 0x00000100
                                 else 0)
                           else pupdr s) \<and>
               odr s' = (if val \<noteq> 0 then 0 else odr s) \<and>
               lckr s' = (if val \<noteq> 0 then 0 else lckr s) \<and>
               aflr s' = (if val \<noteq> 0 then 0 else aflr s) \<and>
               afhr s' = (if val \<noteq> 0 then 0 else afhr s) \<and>
               in_val s' = in_val s \<and> in_mask s' = in_mask s \<and>
               stm32_gpio_irq_reset (s\<lparr>enable := True\<rparr>) line val = Some (s'\<lparr>enable := True\<rparr>, evs) \<and>
               stm32_gpio_update_state (s'\<lparr>idr := idr s\<rparr>) = Some (s', evs) \<and>
               (\<forall>i < unat (ngpio s). resolved_level s' i = spec_level s' i) \<and>
               count_list evs Pulse_state_irq = 1"
  proof (cases "val \<noteq> 0")
    case True
    with a have nr: "\<not> reset s" by simp
    from irq_reset_rising [OF nr True assms(2), of line] obtain d where
      r: "stm32_gpio_irq_reset s line val = Some (d\<lparr>idr := spec_idr d\<rparr>, spec_events d)" and
      d: "d = s\<lparr>reset := True,
                   moder := (if family s = STM32_F4 \<and> port s = STM32_GPIO_PORT_A then 0xA8000000
                             else if family s = STM32_F4 \<and> port s = STM32_GPIO_PORT_B then 0x00000280
                             else 0),
                   otyper := 0,
                   ospeedr := (if family s = STM32_F4 \<and> port s = STM32_GPIO_PORT_B then 0x000000C0 else 0),
                   pupdr := (if family s = STM32_F4 \<and> port s = STM32_GPIO_PORT_A then 0x64000000
                             else if family s = STM32_F4 \<and> port s = STM32_GPIO_PORT_B then 0x00000100
                             else 0),
                   odr := 0, lckr := 0, aflr := 0, afhr := 0\<rparr>"
      by blast
    let ?e = "s\<lparr>enable := True\<rparr>"
    have nre: "\<not> reset ?e" and ne: "unat (ngpio ?e) \<le> 16" using nr assms(2) by simp_all
    from irq_reset_rising [OF nre True ne, of line] obtain d' where
      r': "stm32_gpio_irq_reset ?e line val = Some (d'\<lparr>idr := spec_idr d'\<rparr>, spec_events d')" and
      d': "d' = ?e\<lparr>reset := True,
                   moder := (if family ?e = STM32_F4 \<and> port ?e = STM32_GPIO_PORT_A then 0xA8000000
                             else if family ?e = STM32_F4 \<and> port ?e = STM32_GPIO_PORT_B then 0x00000280
                             else 0),
                   otyper := 0,
                   ospeedr := (if family ?e = STM32_F4 \<and> port ?e = STM32_GPIO_PORT_B then 0x000000C0 else 0),
                   pupdr := (if family ?e = STM32_F4 \<and> port ?e = STM32_GPIO_PORT_A then 0x64000000
                             else if family ?e = STM32_F4 \<and> port ?e = STM32_GPIO_PORT_B then 0x00000100
                             else 0),
                   odr := 0, lckr := 0, aflr := 0, afhr := 0\<rparr>"
      by blast
    have dd: "d' = d\<lparr>enable := True\<rparr>" unfolding d d' by (cases s) simp
    have n: "unat (ngpio d) \<le> 16" and i: "idr d = idr s" and e: "\<not> enable d" and rs: "reset d"
      and ng: "ngpio d = ngpio s"
      using assms unfolding d by simp_all
    have di: "d\<lparr>idr := spec_idr d\<rparr>\<lparr>idr := idr s\<rparr> = d" using i by (cases d) simp
    have u: "stm32_gpio_update_state (d\<lparr>idr := spec_idr d\<rparr>\<lparr>idr := idr s\<rparr>) = Some (d\<lparr>idr := spec_idr d\<rparr>, spec_events d)"
      unfolding di using n by (rule update_state_eq)
    have r'': "stm32_gpio_irq_reset ?e line val = Some (d\<lparr>idr := spec_idr d\<rparr>\<lparr>enable := True\<rparr>, spec_events d)"
      unfolding r' dd spec_idr_enable spec_events_enable by (cases d) simp
    have lv: "\<forall>i < unat (ngpio s). resolved_level (d\<lparr>idr := spec_idr d\<rparr>) i = spec_level (d\<lparr>idr := spec_idr d\<rparr>) i"
      using n ng by (simp add: resolved_level_spec_idr spec_level_idr)
    have regs:
      "moder d = (if family s = STM32_F4 \<and> port s = STM32_GPIO_PORT_A then 0xA8000000
                  else if family s = STM32_F4 \<and> port s = STM32_GPIO_PORT_B then 0x00000280
                  else 0)"
      "otyper d = 0"
      "ospeedr d = (if family s = STM32_F4 \<and> port s = STM32_GPIO_PORT_B then 0x000000C0 else 0)"
      "pupdr d = (if family s = STM32_F4 \<and> port s = STM32_GPIO_PORT_A then 0x64000000
                  else if family s = STM32_F4 \<and> port s = STM32_GPIO_PORT_B then 0x00000100
                  else 0)"
      "odr d = 0" "lckr d = 0" "aflr d = 0" "afhr d = 0"
      "in_val d = in_val s" "in_mask d = in_mask s"
      unfolding d by simp_all
    show ?thesis
      apply (rule exI [of _ "d\<lparr>idr := spec_idr d\<rparr>"])
      apply (rule exI [of _ "spec_events d"])
      using r r'' u lv e rs True regs by (simp add: count_pulse_spec_events)
  next
    case False
    with a have rs: "reset s" and v: "val = 0" by simp_all
    let ?s' = "s\<lparr>reset := False, idr := spec_idr s\<rparr>"
    have r: "stm32_gpio_irq_reset s line val = Some (?s', spec_events s)"
      unfolding v using rs assms(2) by (rule irq_reset_falling)
    have "stm32_gpio_irq_reset (s\<lparr>enable := True\<rparr>) line val =
            Some (s\<lparr>enable := True\<rparr>\<lparr>reset := False, idr := spec_idr (s\<lparr>enable := True\<rparr>)\<rparr>, spec_events (s\<lparr>enable := True\<rparr>))"
      unfolding v using rs assms(2) by (intro irq_reset_falling) simp_all
    then have r': "stm32_gpio_irq_reset (s\<lparr>enable := True\<rparr>) line val = Some (?s'\<lparr>enable := True\<rparr>, spec_events s)"
      unfolding spec_idr_enable spec_events_enable by (cases s) simp
    have di: "?s'\<lparr>idr := idr s\<rparr> = s\<lparr>reset := False\<rparr>" by (cases s) simp
    have u: "stm32_gpio_update_state (?s'\<lparr>idr := idr s\<rparr>) = Some (?s', spec_events s)"
      unfolding di using assms(2) by (simp add: update_state_eq spec_idr_reset spec_events_reset)
    have lv: "\<forall>i < unat (ngpio s). resolved_level ?s' i = spec_level ?s' i"
      using assms(2) resolved_level_spec_idr [of _ s]
      by (simp add: resolved_level_def spec_level_cong [of ?s' s])
    show ?thesis
      apply (rule exI [of _ ?s'])
      apply (rule exI [of _ "spec_events s"])
      using r r' u lv assms(1) v by (simp add: count_pulse_spec_events)
  qed
qed

text \<open>
  The example port, disabled, with MODER \<open>0x40\<close>, PUPDR 4 and ODR 8: driving pin 2 high
  from outside is recorded and resolved (the pin reads high), the enable line enables
  it, and the rising edge of the reset line puts it in reset with MODER, PUPDR and ODR
  at 0; each sends the pulse once.
\<close>

theorem unpowered_control_lines_witness:
  "\<not> enable (port_example\<lparr>enable := False\<rparr>) \<and>
   unat (ngpio (port_example\<lparr>enable := False\<rparr>)) \<le> 16 \<and>
   \<not> external_drive_present (port_example\<lparr>enable := False\<rparr>) 2 \<and>
   (\<exists>s' evs. stm32_gpio_irq_set (port_example\<lparr>enable := False\<rparr>) 2 1 = Some (s', evs) \<and>
      external_drive_present s' 2 \<and> external_drive_level s' 2 \<and> resolved_level s' 2 \<and>
      count_list evs Pulse_state_irq = 1) \<and>
   (\<exists>s' evs. stm32_gpio_irq_enable (port_example\<lparr>enable := False\<rparr>) 0 1 = Some (s', evs) \<and>
      enable s' \<and> count_list evs Pulse_state_irq = 1) \<and>
   moder (port_example\<lparr>enable := False\<rparr>) = 0x40 \<and>
   pupdr (port_example\<lparr>enable := False\<rparr>) = 0x4 \<and>
   odr (port_example\<lparr>enable := False\<rparr>) = 0x8 \<and>
   (\<exists>s' evs. stm32_gpio_irq_reset (port_example\<lparr>enable := False\<rparr>) 0 1 = Some (s', evs) \<and>
      reset s' \<and> \<not> enable s' \<and>
      moder s' = 0 \<and> otyper s' = 0 \<and> ospeedr s' = 0 \<and> pupdr s' = 0 \<and>
      odr s' = 0 \<and> lckr s' = 0 \<and> aflr s' = 0 \<and> afhr s' = 0 \<and>
      count_list evs Pulse_state_irq = 1)"
proof -
  let ?p = "port_example\<lparr>enable := False\<rparr>"
  have h: "\<not> enable ?p" "unat (ngpio ?p) \<le> 16"
    by (simp_all add: port_example_def)
  have n: "unat (ngpio ?p) = 16" "uint (ngpio ?p) = 16" "\<not> reset ?p"
    by (simp_all add: port_example_def)
  have f: "family ?p \<noteq> STM32_F4"
    by (simp add: port_example_def enum_defs)
  have p: "\<not> external_drive_present ?p 2"
    by (simp add: external_drive_present_def port_example_def)
  have q: "moder ?p = 0x40" "pupdr ?p = 0x4" "odr ?p = 0x8"
    by (simp_all add: port_example_def)
  from unpowered_control_lines [OF h, of 2 1] n obtain s' evs where
    r: "stm32_gpio_irq_set ?p 2 1 = Some (s', evs)" and
    e: "external_drive_present s' 2" "external_drive_level s' 2" and
    l: "\<And>i. i < 16 \<Longrightarrow> resolved_level s' i = spec_level s' i" and
    c: "count_list evs Pulse_state_irq = 1"
    by auto
  have "resolved_level s' 2" using l [of 2] e by (simp add: spec_level_def)
  with r e c have a: "\<exists>s' evs. stm32_gpio_irq_set ?p 2 1 = Some (s', evs) \<and>
      external_drive_present s' 2 \<and> external_drive_level s' 2 \<and> resolved_level s' 2 \<and>
      count_list evs Pulse_state_irq = 1" by blast
  have b: "\<exists>s' evs. stm32_gpio_irq_enable ?p 0 1 = Some (s', evs) \<and>
      enable s' \<and> count_list evs Pulse_state_irq = 1"
    using unpowered_control_lines [OF h, of 0 1] by auto
  have d: "\<exists>s' evs. stm32_gpio_irq_reset ?p 0 1 = Some (s', evs) \<and>
      reset s' \<and> \<not> enable s' \<and>
      moder s' = 0 \<and> otyper s' = 0 \<and> ospeedr s' = 0 \<and> pupdr s' = 0 \<and>
      odr s' = 0 \<and> lckr s' = 0 \<and> aflr s' = 0 \<and> afhr s' = 0 \<and>
      count_list evs Pulse_state_irq = 1"
    using unpowered_control_lines [OF h, of 0 1] n(3) f by auto
  from h p q a b d show ?thesis by blast
qed

end
